theory Spec2Isabelle
  imports Main "HOL-Library.Word" "HOL-Library.AList"
begin

section \<open>Basic types (package types)\<close>

text \<open>
  An address is a 20-byte array and a destination a 32-byte array; both are only ever
  compared for equality. Amounts are Go's \<^verbatim>\<open>*big.Int\<close>, unbounded integers.
  \<^verbatim>\<open>types.Funds\<close> is a Go map from asset to amount. The source ranges over such maps and
  may panic or return in the middle of the loop, so the map is an association list and a
  \<^verbatim>\<open>range\<close> loop visits its entries in list order (Go fixes no order; every order is a
  possible list).
\<close>

type_synonym Address = "160 word"
type_synonym Destination = "256 word"
type_synonym Funds = "(Address \<times> int) list"

datatype error = ErrNotApproved | ErrNoSuchObjective | Err string | ErrWrap string error

datatype panic = Panic string

text \<open>
  Modelled from the spec: \<^verbatim>\<open>types.AddressToDestination\<close> is not under src/ (spec 3: an
  Address is embedded in a Destination as its padded form).
\<close>
definition AddressToDestination :: "Address \<Rightarrow> Destination" where
  "AddressToDestination a = ucast a"

text \<open>\<^verbatim>\<open>types.Gt(a, b)\<close> on big integers: \<^verbatim>\<open>a.Cmp(b) > 0\<close>.\<close>
definition Gt :: "int \<Rightarrow> int \<Rightarrow> bool" where
  "Gt a b = (b < a)"

text \<open>
  Modelled from the spec: \<^verbatim>\<open>types.Funds\<close> and its methods are not under src/ (only
  funds\_test.go is). Spec 3: Funds is a mapping from asset to non-negative big integer;
  spec 4.5: the deposit is gated by holdings \<^verbatim>\<open><\<close> target, that is by a positive entry of
  target - holdings. So \<^verbatim>\<open>IsNonZero\<close> holds when some asset has a positive amount.
\<close>
definition IsNonZero :: "Funds \<Rightarrow> bool" where
  "IsNonZero f = list_ex (\<lambda>(asset, v). 0 < v) f"

definition Funds_Clone :: "Funds \<Rightarrow> Funds" where
  "Funds_Clone f = f"

text \<open>
  Modelled from the spec: \<^verbatim>\<open>Funds.Add\<close> is not under src/; the sum, asset by asset, of
  the receiver and the argument.
\<close>
fun Funds_Add :: "Funds \<Rightarrow> Funds \<Rightarrow> Funds" where
  "Funds_Add f [] = f"
| "Funds_Add f ((asset, v) # rest) =
     Funds_Add (AList.update asset ((case map_of f asset of None \<Rightarrow> 0 | Some w \<Rightarrow> w) + v) f) rest"

section \<open>States, outcomes and signatures (package state)\<close>

datatype AllocationType = NormalAllocationType | GuaranteeAllocationType

record Allocation =
  Destination :: Destination
  Amount :: int
  AllocationType :: AllocationType
  Metadata :: "8 word list"

record SingleAssetExit =
  Asset :: Address
  Allocations :: "Allocation list"

type_synonym Exit = "SingleAssetExit list"

record FixedPart =
  ChainId :: int
  Participants :: "Address list"
  ChannelNonce :: int
  AppDefinition :: Address
  ChallengeDuration :: int

record State = FixedPart +
  AppData :: "8 word list"
  Outcome :: Exit
  TurnNum :: "64 word"
  IsFinal :: bool

text \<open>
  Signing is idealised: a secret key is known by the address that signature recovery
  yields for it, and a signature by the address of its signer (spec 4.1: recovery yields
  the signer address).
\<close>
datatype SecretKey = SecretKey (addressOf: Address)

datatype Signature = Sig (signer: Address)

text \<open>Spec 3: SignedState = State + mapping participantIndex to Signature.\<close>
record SignedState =
  state :: State
  sigs :: "nat \<rightharpoonup> Signature"

text \<open>
  Modelled from the spec: package outcome is not under src/. Spec 4.2: total is the sum
  of all allocations; spec 4.5: the safety threshold is the cumulative deposit of the
  allocations before mine.
\<close>
definition SingleAssetExit_TotalAllocated :: "SingleAssetExit \<Rightarrow> int" where
  "SingleAssetExit_TotalAllocated s = sum_list (map Amount (Allocations s))"

definition SingleAssetExit_TotalAllocatedFor :: "SingleAssetExit \<Rightarrow> Destination \<Rightarrow> int" where
  "SingleAssetExit_TotalAllocatedFor s d =
     sum_list (map Amount (filter (\<lambda>a. Destination a = d) (Allocations s)))"

definition SingleAssetExit_DepositSafetyThreshold :: "SingleAssetExit \<Rightarrow> Destination \<Rightarrow> int" where
  "SingleAssetExit_DepositSafetyThreshold s d =
     sum_list (map Amount (takeWhile (\<lambda>a. Destination a \<noteq> d) (Allocations s)))"

fun Exit_funds :: "(SingleAssetExit \<Rightarrow> int) \<Rightarrow> Exit \<Rightarrow> Funds \<Rightarrow> Funds" where
  "Exit_funds f [] acc = acc"
| "Exit_funds f (assetExit # rest) acc = Exit_funds f rest (AList.update (Asset assetExit) (f assetExit) acc)"

definition TotalAllocated :: "Exit \<Rightarrow> Funds" where
  "TotalAllocated e = Exit_funds SingleAssetExit_TotalAllocated e []"

definition TotalAllocatedFor :: "Exit \<Rightarrow> Destination \<Rightarrow> Funds" where
  "TotalAllocatedFor e d = Exit_funds (\<lambda>s. SingleAssetExit_TotalAllocatedFor s d) e []"

definition DepositSafetyThreshold :: "Exit \<Rightarrow> Destination \<Rightarrow> Funds" where
  "DepositSafetyThreshold e d = Exit_funds (\<lambda>s. SingleAssetExit_DepositSafetyThreshold s d) e []"

section \<open>Channel (package channel)\<close>

text \<open>
  Spec 3: Channel = fixedPart, myIndex, onChainFunding, signedStates (by turn number),
  latestSupportedStateTurn. The Go struct embeds the fixed part and carries the channel id.
\<close>
record Channel = FixedPart +
  Id_c :: Destination
  MyIndex :: nat
  OnChainFunding :: Funds
  SignedStateForTurnNum :: "64 word \<rightharpoonup> SignedState"
  latestSupportedStateTurnNum :: "64 word option"

definition PreFundTurnNum :: "64 word" where
  "PreFundTurnNum = 0"

definition PostFundTurnNum :: "64 word" where
  "PostFundTurnNum = 1"

definition Channel_Clone :: "Channel \<Rightarrow> Channel" where
  "Channel_Clone c = c"

text \<open>The zero value \<^verbatim>\<open>channel.Channel{}\<close>.\<close>
definition Channel_zero :: Channel where
  "Channel_zero =
     \<lparr>ChainId = 0, Participants = [], ChannelNonce = 0, AppDefinition = 0, ChallengeDuration = 0,
      Id_c = 0, MyIndex = 0, OnChainFunding = [], SignedStateForTurnNum = Map.empty,
      latestSupportedStateTurnNum = None\<rparr>"

text \<open>
  Modelled from the spec: package channel is not under src/. Spec 3: a state is supported
  iff signed by every participant; spec 4.1: a state is valid-signed-by-i iff the
  recovered address equals participants[i].
\<close>
definition signedBy :: "SignedState \<Rightarrow> nat \<Rightarrow> bool" where
  "signedBy ss i = (sigs ss i \<noteq> None)"

definition signedByAll :: "SignedState \<Rightarrow> bool" where
  "signedByAll ss = list_all (signedBy ss) [0..<length (Participants (state ss))]"

definition SignedByMe :: "Channel \<Rightarrow> 64 word \<Rightarrow> bool" where
  "SignedByMe c t = (case SignedStateForTurnNum c t of None \<Rightarrow> False | Some ss \<Rightarrow> signedBy ss (MyIndex c))"

definition SignedByAll :: "Channel \<Rightarrow> 64 word \<Rightarrow> bool" where
  "SignedByAll c t = (case SignedStateForTurnNum c t of None \<Rightarrow> False | Some ss \<Rightarrow> signedByAll ss)"

definition PreFundSignedByMe :: "Channel \<Rightarrow> bool" where
  "PreFundSignedByMe c = SignedByMe c PreFundTurnNum"

definition PostFundSignedByMe :: "Channel \<Rightarrow> bool" where
  "PostFundSignedByMe c = SignedByMe c PostFundTurnNum"

definition PreFundComplete :: "Channel \<Rightarrow> bool" where
  "PreFundComplete c = SignedByAll c PreFundTurnNum"

definition PostFundComplete :: "Channel \<Rightarrow> bool" where
  "PostFundComplete c = SignedByAll c PostFundTurnNum"

text \<open>The index of the first participant with the given address.\<close>
fun indexOf :: "Address \<Rightarrow> Address list \<Rightarrow> nat \<Rightarrow> nat option" where
  "indexOf a [] i = None"
| "indexOf a (v # rest) i = (if v = a then Some i else indexOf a rest (Suc i))"

text \<open>
  Modelled from the spec (4.2): signAndAddPrefund(sk) signs the stored turn-0 state with
  sk and stores it, and fails if no turn-0 state exists; signAndAddPostfund is analogous
  for turn 1. The signature is stored under the index of the participant whose address it
  recovers to (4.1); a key of no participant gives no valid signature and is refused. The
  latest supported turn is recomputed (4.2, addSignedState): the postfund turn is the
  larger of the two.
\<close>
definition SignAndAddState :: "Channel \<Rightarrow> 64 word \<Rightarrow> SecretKey \<Rightarrow> error + (SignedState \<times> Channel)" where
  "SignAndAddState c t sk =
     (case SignedStateForTurnNum c t of
        None \<Rightarrow> Inl (Err ''no state stored for the turn'')
      | Some stored \<Rightarrow>
          (case indexOf (addressOf sk) (Participants (state stored)) 0 of
             None \<Rightarrow> Inl (Err ''signature not from a participant'')
           | Some i \<Rightarrow>
               (let ss = \<lparr>state = state stored, sigs = Map.empty(i \<mapsto> Sig (addressOf sk))\<rparr>;
                    merged = stored\<lparr>sigs := (sigs stored)(i \<mapsto> Sig (addressOf sk))\<rparr>;
                    c' = c\<lparr>SignedStateForTurnNum := (SignedStateForTurnNum c)(t \<mapsto> merged)\<rparr>;
                    c'' = c'\<lparr>latestSupportedStateTurnNum :=
                            (if SignedByAll c' PostFundTurnNum then Some PostFundTurnNum
                             else if SignedByAll c' PreFundTurnNum then Some PreFundTurnNum
                             else latestSupportedStateTurnNum c)\<rparr>
                in Inr (ss, c''))))"

definition SignAndAddPrefund :: "Channel \<Rightarrow> SecretKey \<Rightarrow> error + (SignedState \<times> Channel)" where
  "SignAndAddPrefund c sk = SignAndAddState c PreFundTurnNum sk"

definition SignAndAddPostfund :: "Channel \<Rightarrow> SecretKey \<Rightarrow> error + (SignedState \<times> Channel)" where
  "SignAndAddPostfund c sk = SignAndAddState c PostFundTurnNum sk"

text \<open>
  Modelled from the spec: \<^verbatim>\<open>channel.New\<close> is not under src/. The channel id is the hash
  of the fixed part (spec 3), taken as the parameter \<open>channelId\<close>. The stored turn-0 and
  turn-1 entries are the prefund and postfund states (glossary), so the channel is built
  from a turn-0 state; the holdings start at zero for every asset of the outcome (spec 8,
  scenario 1: the first deposit is computed before any chain event).
\<close>
definition channel_New :: "(FixedPart \<Rightarrow> Destination) \<Rightarrow> State \<Rightarrow> nat \<Rightarrow> error + Channel" where
  "channel_New channelId s myIndex =
     (if TurnNum s \<noteq> PreFundTurnNum then Inl (Err ''objective must be constructed with TurnNum=0 state'')
      else Inr
        \<lparr>ChainId = ChainId s, Participants = Participants s, ChannelNonce = ChannelNonce s,
         AppDefinition = AppDefinition s, ChallengeDuration = ChallengeDuration s,
         Id_c = channelId (FixedPart.truncate s),
         MyIndex = myIndex,
         OnChainFunding = map (\<lambda>(asset, v). (asset, 0)) (TotalAllocated (Outcome s)),
         SignedStateForTurnNum =
           [PreFundTurnNum \<mapsto> \<lparr>state = s, sigs = Map.empty\<rparr>,
            PostFundTurnNum \<mapsto> \<lparr>state = s\<lparr>TurnNum := PostFundTurnNum\<rparr>, sigs = Map.empty\<rparr>],
         latestSupportedStateTurnNum = None\<rparr>)"

section \<open>Ledger proposals and vouchers carried by messages\<close>

text \<open>
  Spec 3: a Guarantee reserves an amount for a target channel; a Proposal is one of
  Add (guarantee, leftDeposit) or Remove (target, leftAmount), tagged with the ledger id;
  a SignedProposal carries one signature and the turn number; a Voucher carries the
  channel id, the cumulative amount and a signature.
\<close>
record Guarantee =
  g_amount :: int
  g_target :: Destination
  g_left :: Destination
  g_right :: Destination

record Add =
  Guarantee :: Guarantee
  LeftDeposit :: int

record Remove =
  Target :: Destination
  LeftAmount :: int

datatype ProposalType = AddProposal Add | RemoveProposal Remove

record Proposal =
  LedgerID :: Destination
  ToAddOrRemove :: ProposalType

record SignedProposal =
  sp_Signature :: Signature
  sp_Proposal :: Proposal
  sp_TurnNum :: "64 word"

text \<open>
  A voucher's signature is over the hash of (channelId, amount) (spec 4.4). It is idealised
  as the signer together with the channel id and amount that were signed, so that a voucher
  altered after signing no longer recovers to its signer.
\<close>
datatype VoucherSignature = VoucherSig (vs_signer: Address) (vs_channel: Destination) (vs_amount: int)

record Voucher =
  ChannelId :: Destination
  v_Amount :: int
  v_Signature :: VoucherSignature

section \<open>Messages and side effects (package protocols)\<close>

datatype ObjectiveStatus = Unapproved | Approved | Rejected | Completed

text \<open>
  An objective id is the protocol's prefix followed by the channel id (spec 6); the
  hexadecimal rendering of the channel id is not modelled, the id keeps both parts.
\<close>
datatype ObjectiveId = ObjectiveId (prefix_of: string) (channel_of: Destination)

text \<open>\<^verbatim>\<open>protocols.WaitingFor\<close> is a string type.\<close>
type_synonym WaitingFor = string

record ObjectivePayload =
  op_ObjectiveId :: ObjectiveId
  PayloadData :: SignedState

record Message =
  To :: Address
  ObjectivePayloads :: "ObjectivePayload list"
  LedgerProposals :: "SignedProposal list"
  Payments :: "Voucher list"
  RejectedObjectives :: "ObjectiveId list"

record ChainTransaction =
  tx_ChannelId :: Destination
  Deposit :: Funds

record SideEffects =
  MessagesToSend :: "Message list"
  TransactionsToSubmit :: "ChainTransaction list"
  ProposalsToProcess :: "Proposal list"

text \<open>The zero value \<^verbatim>\<open>protocols.SideEffects{}\<close>.\<close>
definition SideEffects_zero :: SideEffects where
  "SideEffects_zero = \<lparr>MessagesToSend = [], TransactionsToSubmit = [], ProposalsToProcess = []\<rparr>"

text \<open>
  Modelled from the spec: \<^verbatim>\<open>protocols.CreateSignedStateMessages\<close> is not under src/.
  Spec 4.5: the signed state is broadcast; spec 6: a message carries it as an objective
  payload. One message goes to every participant but the one at \<open>myIndex\<close>.
\<close>
definition CreateSignedStateMessages :: "ObjectiveId \<Rightarrow> SignedState \<Rightarrow> nat \<Rightarrow> Message list" where
  "CreateSignedStateMessages oid ss myIndex =
     map (\<lambda>(i, participant).
            \<lparr>To = participant, ObjectivePayloads = [\<lparr>op_ObjectiveId = oid, PayloadData = ss\<rparr>],
             LedgerProposals = [], Payments = [], RejectedObjectives = []\<rparr>)
         (filter (\<lambda>(i, participant). i \<noteq> myIndex)
            (zip [0..<length (Participants (state ss))] (Participants (state ss))))"

section \<open>The direct-fund objective (protocols/directfund/directfund.go)\<close>

definition WaitingForCompletePrefund :: WaitingFor where
  "WaitingForCompletePrefund = ''WaitingForCompletePrefund''"

definition WaitingForMyTurnToFund :: WaitingFor where
  "WaitingForMyTurnToFund = ''WaitingForMyTurnToFund''"

definition WaitingForCompleteFunding :: WaitingFor where
  "WaitingForCompleteFunding = ''WaitingForCompleteFunding''"

definition WaitingForCompletePostFund :: WaitingFor where
  "WaitingForCompletePostFund = ''WaitingForCompletePostFund''"

definition WaitingForNothing :: WaitingFor where
  "WaitingForNothing = ''WaitingForNothing''"

definition ObjectivePrefix :: string where
  "ObjectivePrefix = ''DirectFunding-''"

text \<open>
  The field \<open>C\<close> is a pointer in the source; every objective built by NewObjective or
  UnmarshalJSON points to a channel, and the model holds the channel by value.
\<close>
record Objective =
  Status :: ObjectiveStatus
  C :: Channel
  myDepositSafetyThreshold :: Funds
  myDepositTarget :: Funds
  fullyFundedThreshold :: Funds

record jsonObjective =
  json_Status :: ObjectiveStatus
  json_C :: Destination
  MyDepositSafetyThreshold :: Funds
  MyDepositTarget :: Funds
  FullyFundedThreshold :: Funds

text \<open>
  NewObjective: the loop over the participants finds the first index holding
  \<open>myAddress\<close> (\<open>indexOf\<close>). The hash giving the channel id is the parameter
  \<open>channelId\<close> of \<open>channel_New\<close>.
\<close>
definition NewObjective ::
  "(FixedPart \<Rightarrow> Destination) \<Rightarrow> bool \<Rightarrow> State \<Rightarrow> Address \<Rightarrow> error + Objective" where
  "NewObjective channelId preApprove initialState myAddress =
     (if TurnNum initialState \<noteq> 0 then
        Inl (Err ''cannot construct direct fund objective without prefund state'')
      else if IsFinal initialState then
        Inl (Err ''attempted to initiate new direct-funding objective with IsFinal == true'')
      else
        (let init_Status = (if preApprove then Approved else Unapproved) in
         case indexOf myAddress (Participants initialState) 0 of
           None \<Rightarrow> Inl (Err ''my address not found in participants'')
         | Some myIndex \<Rightarrow>
             (case channel_New channelId initialState myIndex of
                Inl err \<Rightarrow> Inl (ErrWrap ''failed to initialize channel for direct-fund objective'' err)
              | Inr c \<Rightarrow>
                  (let myAllocatedAmount =
                         TotalAllocatedFor (Outcome initialState) (AddressToDestination myAddress);
                       init_fullyFundedThreshold = TotalAllocated (Outcome initialState);
                       init_myDepositSafetyThreshold =
                         DepositSafetyThreshold (Outcome initialState) (AddressToDestination myAddress);
                       init_myDepositTarget = Funds_Add init_myDepositSafetyThreshold myAllocatedAmount
                   in Inr \<lparr>Status = init_Status, C = c,
                           myDepositSafetyThreshold = init_myDepositSafetyThreshold,
                           myDepositTarget = init_myDepositTarget,
                           fullyFundedThreshold = init_fullyFundedThreshold\<rparr>))))"

definition Objective_Id :: "Objective \<Rightarrow> ObjectiveId" where
  "Objective_Id obj = ObjectiveId ObjectivePrefix (Id_c (C obj))"

text \<open>clone returns a deep copy of the receiver.\<close>
definition clone :: "Objective \<Rightarrow> Objective" where
  "clone obj =
     \<lparr>Status = Status obj, C = Channel_Clone (C obj),
      myDepositSafetyThreshold = Funds_Clone (myDepositSafetyThreshold obj),
      myDepositTarget = Funds_Clone (myDepositTarget obj),
      fullyFundedThreshold = Funds_Clone (fullyFundedThreshold obj)\<rparr>"



text \<open>
  fundingComplete: for every asset of the fully-funded threshold, the holdings have the
  asset and the threshold is not greater than the holding.
\<close>
fun fundingComplete_loop :: "Funds \<Rightarrow> Funds \<Rightarrow> bool" where
  "fundingComplete_loop [] funding = True"
| "fundingComplete_loop ((asset, threshold) # rest) funding =
     (case map_of funding asset of
        None \<Rightarrow> False
      | Some chainHolding \<Rightarrow>
          if Gt threshold chainHolding then False else fundingComplete_loop rest funding)"

definition fundingComplete :: "Objective \<Rightarrow> bool" where
  "fundingComplete obj = fundingComplete_loop (fullyFundedThreshold obj) (OnChainFunding (C obj))"

fun safeToDeposit_loop :: "Funds \<Rightarrow> Funds \<Rightarrow> panic + bool" where
  "safeToDeposit_loop [] funding = Inr True"
| "safeToDeposit_loop ((asset, safetyThreshold) # rest) funding =
     (case map_of funding asset of
        None \<Rightarrow> Inl (Panic ''nil chainHolding for asset in myDepositSafetyThreshold'')
      | Some chainHolding \<Rightarrow>
          if Gt safetyThreshold chainHolding then Inr False else safeToDeposit_loop rest funding)"

definition safeToDeposit :: "Objective \<Rightarrow> panic + bool" where
  "safeToDeposit obj = safeToDeposit_loop (myDepositSafetyThreshold obj) (OnChainFunding (C obj))"

text \<open>amountToDeposit: \<^verbatim>\<open>deposits[asset] = target - holding\<close> for every asset of the target.\<close>
fun amountToDeposit_loop :: "Funds \<Rightarrow> Funds \<Rightarrow> Funds \<Rightarrow> panic + Funds" where
  "amountToDeposit_loop [] funding deposits = Inr deposits"
| "amountToDeposit_loop ((asset, target) # rest) funding deposits =
     (case map_of funding asset of
        None \<Rightarrow> Inl (Panic ''nil chainHolding for asset in myDepositTarget'')
      | Some holding \<Rightarrow>
          amountToDeposit_loop rest funding (AList.update asset (0 + (target - holding)) deposits))"

definition amountToDeposit :: "Objective \<Rightarrow> panic + Funds" where
  "amountToDeposit obj = amountToDeposit_loop (myDepositTarget obj) (OnChainFunding (C obj)) []"

type_synonym CrankResult = "panic + (Objective \<times> SideEffects \<times> WaitingFor \<times> error option)"

text \<open>Crank, from the comment \<^verbatim>\<open>// Postfunding\<close> to the end.\<close>
definition Crank_Postfunding :: "Objective \<Rightarrow> SideEffects \<Rightarrow> SecretKey \<Rightarrow> CrankResult" where
  "Crank_Postfunding updated sideEffects secretKey =
     (case (if \<not> PostFundSignedByMe (C updated) then
              (case SignAndAddPostfund (C updated) secretKey of
                 Inl err \<Rightarrow> Inl err
               | Inr (ss, c') \<Rightarrow>
                   (let updated' = updated\<lparr>C := c'\<rparr>;
                        messages = CreateSignedStateMessages (Objective_Id updated') ss (MyIndex (C updated'))
                    in Inr (updated', sideEffects\<lparr>MessagesToSend := MessagesToSend sideEffects @ messages\<rparr>)))
            else Inr (updated, sideEffects)) of
        Inl err \<Rightarrow>
          Inr (updated, SideEffects_zero, WaitingForCompletePostFund, Some (ErrWrap ''could not sign postfund'' err))
      | Inr (updated, sideEffects) \<Rightarrow>
          if \<not> PostFundComplete (C updated) then
            Inr (updated, sideEffects, WaitingForCompletePostFund, None)
          else Inr (updated, sideEffects, WaitingForNothing, None))"

text \<open>Crank, from the check of PreFundComplete through the part \<^verbatim>\<open>// Funding\<close>.\<close>
definition Crank_Funding :: "Objective \<Rightarrow> SideEffects \<Rightarrow> SecretKey \<Rightarrow> CrankResult" where
  "Crank_Funding updated sideEffects secretKey =
     (if \<not> PreFundComplete (C updated) then
        Inr (updated, sideEffects, WaitingForCompletePrefund, None)
      else
        (let isFundingComplete = fundingComplete updated in
         case amountToDeposit updated of
           Inl p \<Rightarrow> Inl p
         | Inr theAmountToDeposit \<Rightarrow>
             (case safeToDeposit updated of
                Inl p \<Rightarrow> Inl p
              | Inr isSafeToDeposit \<Rightarrow>
                  if \<not> isFundingComplete \<and> \<not> isSafeToDeposit then
                    Inr (updated, sideEffects, WaitingForMyTurnToFund, None)
                  else
                    (let sideEffects' =
                           (if \<not> isFundingComplete \<and> isSafeToDeposit \<and> IsNonZero theAmountToDeposit then
                              sideEffects\<lparr>TransactionsToSubmit :=
                                TransactionsToSubmit sideEffects @
                                  [\<lparr>tx_ChannelId = Id_c (C updated), Deposit = theAmountToDeposit\<rparr>]\<rparr>
                            else sideEffects)
                     in if \<not> isFundingComplete then
                          Inr (updated, sideEffects', WaitingForCompleteFunding, None)
                        else Crank_Postfunding updated sideEffects' secretKey))))"

text \<open>
  Crank inspects the extended state and declares the effects to be executed. A Go panic
  is the result \<open>Inl\<close>; otherwise the four returned values are given, the error as an
  option.
\<close>
definition Crank :: "Objective \<Rightarrow> SecretKey \<Rightarrow> CrankResult" where
  "Crank obj secretKey =
     (let updated = clone obj;
          sideEffects = SideEffects_zero
      in if Status updated \<noteq> Approved then
           Inr (updated, SideEffects_zero, WaitingForNothing, Some ErrNotApproved)
         else
           (case (if \<not> PreFundSignedByMe (C updated) then
                    (case SignAndAddPrefund (C updated) secretKey of
                       Inl err \<Rightarrow> Inl err
                     | Inr (ss, c') \<Rightarrow>
                         (let updated' = updated\<lparr>C := c'\<rparr>;
                              messages = CreateSignedStateMessages (Objective_Id updated') ss (MyIndex (C updated'))
                          in Inr (updated', sideEffects\<lparr>MessagesToSend := MessagesToSend sideEffects @ messages\<rparr>)))
                  else Inr (updated, sideEffects)) of
              Inl err \<Rightarrow>
                Inr (updated, SideEffects_zero, WaitingForCompletePrefund, Some (ErrWrap ''could not sign prefund'' err))
            | Inr (updated, sideEffects) \<Rightarrow> Crank_Funding updated sideEffects secretKey))"

text \<open>
  \<^verbatim>\<open>encoding/json\<close> is Go's standard library: the bytes it writes for a jsonObjective
  are modelled by the value they encode. \<open>JsonNull\<close> is the literal \<^verbatim>\<open>null\<close> and
  \<open>JsonMalformed\<close> stands for all bytes that do not decode to a jsonObjective.
\<close>
datatype json_data = JsonNull | JsonObject jsonObjective | JsonMalformed

definition json_Marshal :: "jsonObjective \<Rightarrow> json_data" where
  "json_Marshal j = JsonObject j"

definition json_Unmarshal :: "json_data \<Rightarrow> error + jsonObjective" where
  "json_Unmarshal data =
     (case data of
        JsonObject j \<Rightarrow> Inr j
      | JsonNull \<Rightarrow> Inl (Err ''unexpected null'')
      | JsonMalformed \<Rightarrow> Inl (Err ''invalid character''))"

definition MarshalJSON :: "Objective \<Rightarrow> json_data" where
  "MarshalJSON obj =
     (let jsonDFO = \<lparr>json_Status = Status obj, json_C = Id_c (C obj),
                     MyDepositSafetyThreshold = myDepositSafetyThreshold obj,
                     MyDepositTarget = myDepositTarget obj,
                     FullyFundedThreshold = fullyFundedThreshold obj\<rparr>
      in json_Marshal jsonDFO)"

text \<open>
  UnmarshalJSON populates the receiver \<open>obj\<close>; the result is the error, or the receiver as
  the call leaves it.
\<close>
definition UnmarshalJSON :: "Objective \<Rightarrow> json_data \<Rightarrow> error + Objective" where
  "UnmarshalJSON obj data =
     (if data = JsonNull then Inr obj
      else
        (case json_Unmarshal data of
           Inl err \<Rightarrow> Inl err
         | Inr jsonDFO \<Rightarrow>
             Inr (obj\<lparr>C := Channel_zero\<lparr>Id_c := json_C jsonDFO\<rparr>,
                     Status := json_Status jsonDFO,
                     fullyFundedThreshold := FullyFundedThreshold jsonDFO,
                     myDepositTarget := MyDepositTarget jsonDFO,
                     myDepositSafetyThreshold := MyDepositSafetyThreshold jsonDFO\<rparr>)))"

section \<open>The voucher manager (package payments)\<close>

text \<open>
  Modelled from the spec: package payments is not under src/, only its test
  (TestPaymentManager) is. Spec 3: a per-channel entry is payer, payee, startingBalance,
  largestVoucher, and Balance = (remaining = starting - largest, paid = largest). Spec 4.4
  gives register, pay and receive.
\<close>
record VoucherInfo =
  ChannelPayer :: Address
  ChannelPayee :: Address
  StartingBalance :: int
  LargestVoucher :: int

record VoucherManager =
  vm_channels :: "Destination \<rightharpoonup> VoucherInfo"
  vm_me :: Address

record Balance =
  Remaining :: int
  Paid :: int

definition NewVoucherManager :: "Address \<Rightarrow> VoucherManager" where
  "NewVoucherManager me = \<lparr>vm_channels = Map.empty, vm_me = me\<rparr>"

definition Voucher_Sign :: "Voucher \<Rightarrow> SecretKey \<Rightarrow> Voucher" where
  "Voucher_Sign v sk = v\<lparr>v_Signature := VoucherSig (addressOf sk) (ChannelId v) (v_Amount v)\<rparr>"

definition RecoverSigner :: "Voucher \<Rightarrow> Address option" where
  "RecoverSigner v =
     (case v_Signature v of
        VoucherSig a c n \<Rightarrow> if c = ChannelId v \<and> n = v_Amount v then Some a else None)"

definition ChannelRegistered :: "VoucherManager \<Rightarrow> Destination \<Rightarrow> bool" where
  "ChannelRegistered vm channelId = (vm_channels vm channelId \<noteq> None)"

text \<open>Modelled from the spec (4.4): register fails if the channel is already registered.\<close>
definition Register ::
  "VoucherManager \<Rightarrow> Destination \<Rightarrow> Address \<Rightarrow> Address \<Rightarrow> int \<Rightarrow> error option \<times> VoucherManager" where
  "Register vm channelId payer payee startingBalance =
     (if ChannelRegistered vm channelId then (Some (Err ''channel already registered''), vm)
      else (None, vm\<lparr>vm_channels := (vm_channels vm)(channelId \<mapsto>
              \<lparr>ChannelPayer = payer, ChannelPayee = payee, StartingBalance = startingBalance,
               LargestVoucher = 0\<rparr>)\<rparr>))"

definition Balance_of :: "VoucherManager \<Rightarrow> Destination \<Rightarrow> error + Balance" where
  "Balance_of vm channelId =
     (case vm_channels vm channelId of
        None \<Rightarrow> Inl (Err ''channel not found'')
      | Some info \<Rightarrow>
          Inr \<lparr>Remaining = StartingBalance info - LargestVoucher info, Paid = LargestVoucher info\<rparr>)"

text \<open>
  Modelled from the spec (4.4): pay increases the cumulative paid by delta, fails if
  paid + delta exceeds the starting balance, and returns the signed voucher for the
  cumulative amount. The test adds that the channel must be registered and that only the
  payer can sign.
\<close>
definition Pay ::
  "VoucherManager \<Rightarrow> Destination \<Rightarrow> int \<Rightarrow> SecretKey \<Rightarrow> (error + Voucher) \<times> VoucherManager" where
  "Pay vm channelId delta sk =
     (case vm_channels vm channelId of
        None \<Rightarrow> (Inl (Err ''channel not registered''), vm)
      | Some info \<Rightarrow>
          if addressOf sk \<noteq> ChannelPayer info then (Inl (Err ''can only sign vouchers if we are the payer''), vm)
          else if Gt (LargestVoucher info + delta) (StartingBalance info) then
            (Inl (Err ''unable to pay amount: insufficient funds''), vm)
          else
            (let cumulative = LargestVoucher info + delta;
                 voucher = Voucher_Sign \<lparr>ChannelId = channelId, v_Amount = cumulative,
                                          v_Signature = VoucherSig 0 0 0\<rparr> sk
             in (Inr voucher,
                 vm\<lparr>vm_channels := (vm_channels vm)(channelId \<mapsto> info\<lparr>LargestVoucher := cumulative\<rparr>)\<rparr>)))"

text \<open>
  Modelled from the spec (4.4): receive verifies that the signer is the registered payer,
  rejects a voucher over the starting balance, and on a strict increase stores the new
  largest amount and returns it as the total paid. For a voucher that is not larger than
  the stored one the model follows the test under src/ (TestPaymentManager, "Receiving a
  voucher is idempotent" and "Receiving old vouchers is ok"): the call succeeds, changes
  nothing and returns the stored total. The result is the error or the total paid,
  together with the manager as the call leaves it.
\<close>
definition Receive :: "VoucherManager \<Rightarrow> Voucher \<Rightarrow> (error + int) \<times> VoucherManager" where
  "Receive vm voucher =
     (case vm_channels vm (ChannelId voucher) of
        None \<Rightarrow> (Inl (Err ''channel not registered''), vm)
      | Some info \<Rightarrow>
          if RecoverSigner voucher \<noteq> Some (ChannelPayer info) then (Inl (Err ''wrong signer''), vm)
          else if Gt (v_Amount voucher) (StartingBalance info) then
            (Inl (Err ''channel has insufficient funds''), vm)
          else if Gt (v_Amount voucher) (LargestVoucher info) then
            (Inr (v_Amount voucher),
             vm\<lparr>vm_channels := (vm_channels vm)(ChannelId voucher \<mapsto>
                   info\<lparr>LargestVoucher := v_Amount voucher\<rparr>)\<rparr>)
          else (Inr (LargestVoucher info), vm))"

section \<open>The consensus channel (package consensus\_channel)\<close>

text \<open>
  Modelled from the spec: package consensus\_channel is not under src/ (tests only build
  its values). Spec 3: LedgerOutcome = asset, left and right Balance, and the guarantees
  keyed by their target; the keyed set is an association list from target to guarantee.
  The ledger's balance record is called LedgerBalance here, the name Balance being taken
  by package payments.
\<close>
record LedgerBalance =
  lb_destination :: Destination
  lb_amount :: int

record LedgerOutcome =
  assetAddress :: Address
  leader :: LedgerBalance
  follower :: LedgerBalance
  guarantees :: "(Destination \<times> Guarantee) list"


text \<open>
  Modelled from the spec (4.3), legality of Add (guarantee (target, amount), leftDeposit)
  on the outcome (L, R, G): the target is not in G, leftDeposit is at most amount, L holds
  leftDeposit and R holds amount - leftDeposit; the result is L - leftDeposit,
  R - (amount - leftDeposit) and G with the guarantee for the target.
\<close>
definition LedgerOutcome_Add :: "LedgerOutcome \<Rightarrow> Add \<Rightarrow> error + LedgerOutcome" where
  "LedgerOutcome_Add lo p =
     (let g = Guarantee p;
          rightDeposit = g_amount g - LeftDeposit p
      in if map_of (guarantees lo) (g_target g) \<noteq> None then Inl (Err ''duplicate guarantee'')
         else if Gt (LeftDeposit p) (g_amount g) then Inl (Err ''left deposit exceeds the amount'')
         else if Gt (LeftDeposit p) (lb_amount (leader lo)) \<or> Gt rightDeposit (lb_amount (follower lo)) then
           Inl (Err ''insufficient funds'')
         else Inr (lo\<lparr>leader := (leader lo)\<lparr>lb_amount := lb_amount (leader lo) - LeftDeposit p\<rparr>,
                      follower := (follower lo)\<lparr>lb_amount := lb_amount (follower lo) - rightDeposit\<rparr>,
                      guarantees := guarantees lo @ [(g_target g, g)]\<rparr>))"

text \<open>
  Modelled from the spec (4.3), legality of Remove (target, leftAmount): the target is in
  G with a guarantee of amount a, and 0 is at most leftAmount, which is at most a; the
  result is L + leftAmount, R + (a - leftAmount) and G without the target.
\<close>
definition LedgerOutcome_Remove :: "LedgerOutcome \<Rightarrow> Remove \<Rightarrow> error + LedgerOutcome" where
  "LedgerOutcome_Remove lo p =
     (case map_of (guarantees lo) (Target p) of
        None \<Rightarrow> Inl (Err ''guarantee not found'')
      | Some g \<Rightarrow>
          if Gt 0 (LeftAmount p) \<or> Gt (LeftAmount p) (g_amount g) then
            Inl (Err ''left amount out of range'')
          else Inr (lo\<lparr>leader := (leader lo)\<lparr>lb_amount := lb_amount (leader lo) + LeftAmount p\<rparr>,
                       follower := (follower lo)\<lparr>lb_amount := lb_amount (follower lo) + (g_amount g - LeftAmount p)\<rparr>,
                       guarantees := AList.delete (Target p) (guarantees lo)\<rparr>))"

definition applyProposal :: "LedgerOutcome \<Rightarrow> ProposalType \<Rightarrow> error + LedgerOutcome" where
  "applyProposal lo p =
     (case p of AddProposal a \<Rightarrow> LedgerOutcome_Add lo a | RemoveProposal r \<Rightarrow> LedgerOutcome_Remove lo r)"

text \<open>Spec 4.3: currentOutcome = apply (proposalQueue, consensusOutcome), in queue order.\<close>
fun applyProposals :: "LedgerOutcome \<Rightarrow> ProposalType list \<Rightarrow> error + LedgerOutcome" where
  "applyProposals lo [] = Inr lo"
| "applyProposals lo (p # ps) =
     (case applyProposal lo p of Inl err \<Rightarrow> Inl err | Inr lo' \<Rightarrow> applyProposals lo' ps)"

text \<open>The sum left + right + all guarantee amounts (spec 8, invariant 3).\<close>
definition ledgerTotal :: "LedgerOutcome \<Rightarrow> int" where
  "ledgerTotal lo =
     lb_amount (leader lo) + lb_amount (follower lo) + sum_list (map (\<lambda>(t, g). g_amount g) (guarantees lo))"

text \<open>The guarantees are keyed by target: no target occurs twice.\<close>
definition keyedByTarget :: "LedgerOutcome \<Rightarrow> bool" where
  "keyedByTarget lo = distinct (map fst (guarantees lo))"

section \<open>Objectives as the engine sees them (interface protocols.Objective)\<close>












section \<open>The store (package store)\<close>










section \<open>The engine (package engine)\<close>
























section \<open>Values of the scenarios\<close>

text \<open>
  Spec 8, scenario 1: participants A and B with an allocation of 5 units each in one asset,
  nonce 1. The addresses are those of the test actors.
\<close>
definition Alice :: Address where
  "Alice = 0xAAA6628Ec44A8a742987EF3A114dDFE2D4F7aDCE"

definition Bob :: Address where
  "Bob = 0xBBB676f9cFF8D242e9eaC39D063848807d3D1D94"

definition scenario_outcome :: Exit where
  "scenario_outcome =
     [\<lparr>Asset = 0, Allocations =
         [\<lparr>Destination = AddressToDestination Alice, Amount = 5,
           AllocationType = NormalAllocationType, Metadata = []\<rparr>,
          \<lparr>Destination = AddressToDestination Bob, Amount = 5,
           AllocationType = NormalAllocationType, Metadata = []\<rparr>]\<rparr>]"

definition scenario_state :: State where
  "scenario_state =
     \<lparr>ChainId = 9001, Participants = [Alice, Bob], ChannelNonce = 1, AppDefinition = 0,
      ChallengeDuration = 45, AppData = [], Outcome = scenario_outcome, TurnNum = 0,
      IsFinal = False\<rparr>"

text \<open>A stand-in for the hash of the fixed part, for the scenarios only.\<close>
definition scenario_channelId :: "FixedPart \<Rightarrow> Destination" where
  "scenario_channelId fp = of_int (ChannelNonce fp)"

definition unapproved_objective :: Objective where
  "unapproved_objective =
     \<lparr>Status = Unapproved, C = Channel_zero, myDepositSafetyThreshold = [],
      myDepositTarget = [], fullyFundedThreshold = []\<rparr>"

text \<open>
  The objective of A in scenario 1 once B's prefund signature has arrived and before any
  deposit: A has not signed yet, the holdings are zero, A's safety threshold is 0, A's
  deposit target 5 and the fully-funded threshold 10.
\<close>
definition scenario_channel :: Channel where
  "scenario_channel =
     \<lparr>ChainId = 9001, Participants = [Alice, Bob], ChannelNonce = 1, AppDefinition = 0,
      ChallengeDuration = 45, Id_c = 1, MyIndex = 0, OnChainFunding = [(0, 0)],
      SignedStateForTurnNum =
        [PreFundTurnNum \<mapsto> \<lparr>state = scenario_state, sigs = [1 \<mapsto> Sig Bob]\<rparr>,
         PostFundTurnNum \<mapsto> \<lparr>state = scenario_state\<lparr>TurnNum := PostFundTurnNum\<rparr>, sigs = Map.empty\<rparr>],
      latestSupportedStateTurnNum = None\<rparr>"

definition scenario_objective :: Objective where
  "scenario_objective =
     \<lparr>Status = Approved, C = scenario_channel, myDepositSafetyThreshold = [(0, 0)],
      myDepositTarget = [(0, 5)], fullyFundedThreshold = [(0, 10)]\<rparr>"

text \<open>
  A channel of A and B over two assets (0 and 1), 5 units each per participant, with the
  prefund state signed by both. Nothing is held of asset 0, and 7 units of asset 1 have
  been deposited on chain, more than A's target of 5 and less than the 10 of full funding.
\<close>
definition two_asset_state :: State where
  "two_asset_state = scenario_state\<lparr>Outcome := scenario_outcome @ map (\<lambda>e. e\<lparr>Asset := 1\<rparr>) scenario_outcome\<rparr>"

definition two_asset_objective :: Objective where
  "two_asset_objective =
     \<lparr>Status = Approved,
      C = scenario_channel
            \<lparr>OnChainFunding := [(0, 0), (1, 7)],
             SignedStateForTurnNum :=
               [PreFundTurnNum \<mapsto> \<lparr>state = two_asset_state, sigs = [0 \<mapsto> Sig Alice, 1 \<mapsto> Sig Bob]\<rparr>,
                PostFundTurnNum \<mapsto> \<lparr>state = two_asset_state\<lparr>TurnNum := PostFundTurnNum\<rparr>, sigs = Map.empty\<rparr>]\<rparr>,
      myDepositSafetyThreshold = [(0, 0), (1, 0)],
      myDepositTarget = [(0, 5), (1, 5)],
      fullyFundedThreshold = [(0, 10), (1, 10)]\<rparr>"

text \<open>
  What a crank declares: the recipients of the messages to send, the chain transactions to
  submit, the WaitingFor value and the error; \<open>None\<close> when the crank panics.
\<close>
definition declared ::
  "CrankResult \<Rightarrow> (Address list \<times> ChainTransaction list \<times> WaitingFor \<times> error option) option" where
  "declared r =
     (case r of
        Inl p \<Rightarrow> None
      | Inr (updated, sideEffects, waitingFor, err) \<Rightarrow>
          Some (map To (MessagesToSend sideEffects), TransactionsToSubmit sideEffects, waitingFor, err))"

text \<open>The crank of the objective returned by a first crank, with nothing changed in between.\<close>
definition crank_again :: "Objective \<Rightarrow> SecretKey \<Rightarrow> CrankResult" where
  "crank_again obj secretKey =
     (case Crank obj secretKey of
        Inl p \<Rightarrow> Inl p
      | Inr (updated, sideEffects, waitingFor, err) \<Rightarrow> Crank updated secretKey)"

text \<open>
  The secret key is the one of this channel's own participant: its signatures on the stored
  prefund and postfund states recover to the participant at \<open>MyIndex\<close>.
\<close>
definition signsAsMe :: "Channel \<Rightarrow> SecretKey \<Rightarrow> bool" where
  "signsAsMe c sk =
     list_all (\<lambda>t. case SignedStateForTurnNum c t of
                      None \<Rightarrow> True
                    | Some ss \<Rightarrow> indexOf (addressOf sk) (Participants (state ss)) 0 = Some (MyIndex c))
       [PreFundTurnNum, PostFundTurnNum]"

text \<open>
  The values of TestPaymentManager: channel 1 with payer A, payee B and a deposit of 1000,
  registered with B's manager; vouchers signed by A for the cumulative amounts 20 and 40.
\<close>
definition testVoucher :: "Destination \<Rightarrow> int \<Rightarrow> SecretKey \<Rightarrow> Voucher" where
  "testVoucher cId amount sk =
     Voucher_Sign \<lparr>ChannelId = cId, v_Amount = amount, v_Signature = VoucherSig 0 0 0\<rparr> sk"

definition receiptMgr :: VoucherManager where
  "receiptMgr = snd (Register (NewVoucherManager Bob) 1 Alice Bob 1000)"

definition firstVoucher :: Voucher where
  "firstVoucher = testVoucher 1 20 (SecretKey Alice)"

definition secondVoucher :: Voucher where
  "secondVoucher = testVoucher 1 40 (SecretKey Alice)"

text \<open>
  Spec 8, scenarios 2 and 4: a ledger with left 15 and right 5, the Add of a guarantee of 10
  for the virtual channel V (here 7) with leftDeposit 10, and its Remove with leftAmount 4,
  after which the ledger has left 9 and right 11.
\<close>
definition scenario_ledger :: LedgerOutcome where
  "scenario_ledger =
     \<lparr>assetAddress = 0,
      leader = \<lparr>lb_destination = AddressToDestination Alice, lb_amount = 15\<rparr>,
      follower = \<lparr>lb_destination = AddressToDestination Bob, lb_amount = 5\<rparr>,
      guarantees = []\<rparr>"

definition scenario_add :: Add where
  "scenario_add =
     \<lparr>Guarantee = \<lparr>g_amount = 10, g_target = 7, g_left = AddressToDestination Alice,
                    g_right = AddressToDestination Bob\<rparr>,
      LeftDeposit = 10\<rparr>"

definition scenario_remove :: Remove where
  "scenario_remove = \<lparr>Target = 7, LeftAmount = 4\<rparr>"







section \<open>Properties of the direct-fund objective\<close>

lemma clone_id: "clone obj = obj"
  by (simp add: clone_def Channel_Clone_def Funds_Clone_def)

text \<open>
  C10. For every direct-fund objective whose Status is not Approved, Crank returns the
  objective unchanged, an empty side-effect set, the error ErrNotApproved and the
  WaitingFor value WaitingForNothing, which is also the value of the completion return
  at the end of Crank.
\<close>
theorem Crank_not_approved:
  "Status obj \<noteq> Approved \<Longrightarrow>
     Crank obj secretKey = Inr (obj, SideEffects_zero, WaitingForNothing, Some ErrNotApproved)
     \<and> MessagesToSend SideEffects_zero = []
     \<and> TransactionsToSubmit SideEffects_zero = []
     \<and> ProposalsToProcess SideEffects_zero = []"
  by (simp add: Crank_def clone_id SideEffects_zero_def)

theorem Crank_not_approved_witness:
  "Status unapproved_objective \<noteq> Approved
   \<and> Crank unapproved_objective (SecretKey Alice) =
       Inr (unapproved_objective, SideEffects_zero, WaitingForNothing, Some ErrNotApproved)
   \<and> MessagesToSend SideEffects_zero = []
   \<and> TransactionsToSubmit SideEffects_zero = []
   \<and> ProposalsToProcess SideEffects_zero = []"
proof -
  have h: "Status unapproved_objective \<noteq> Approved"
    by (simp add: unapproved_objective_def)
  show ?thesis
    using h Crank_not_approved [OF h, of "SecretKey Alice"] by simp
qed

text \<open>
  C8. Constructing a direct-fund objective requires a prefund state: NewObjective returns
  an error whenever the initial state has TurnNum other than 0 or IsFinal set, and it
  succeeds for every turn-0, non-final initial state whose participants contain the
  caller's address.
\<close>
lemma indexOf_mem: "a \<in> set ps \<Longrightarrow> \<exists>i. indexOf a ps k = Some i"
  by (induction ps arbitrary: k) auto

theorem NewObjective_requires_prefund:
  "(TurnNum initialState \<noteq> 0 \<or> IsFinal initialState \<longrightarrow>
      (\<exists>err. NewObjective channelId preApprove initialState myAddress = Inl err))
   \<and> (TurnNum initialState = 0 \<and> \<not> IsFinal initialState
        \<and> myAddress \<in> set (Participants initialState) \<longrightarrow>
      (\<exists>obj. NewObjective channelId preApprove initialState myAddress = Inr obj
         \<and> Status obj = (if preApprove then Approved else Unapproved)))"
proof (intro conjI impI)
  assume "TurnNum initialState \<noteq> 0 \<or> IsFinal initialState"
  then show "\<exists>err. NewObjective channelId preApprove initialState myAddress = Inl err"
    by (auto simp: NewObjective_def)
next
  assume a: "TurnNum initialState = 0 \<and> \<not> IsFinal initialState
        \<and> myAddress \<in> set (Participants initialState)"
  then obtain i where i: "indexOf myAddress (Participants initialState) 0 = Some i"
    using indexOf_mem by blast
  from a have "\<exists>c. channel_New channelId initialState i = Inr c"
    by (simp add: channel_New_def PreFundTurnNum_def)
  with a i show "\<exists>obj. NewObjective channelId preApprove initialState myAddress = Inr obj
         \<and> Status obj = (if preApprove then Approved else Unapproved)"
    by (auto simp: NewObjective_def Let_def)
qed

theorem NewObjective_requires_prefund_witness:
  "TurnNum scenario_state = 0 \<and> \<not> IsFinal scenario_state
   \<and> Alice \<in> set (Participants scenario_state)
   \<and> (\<exists>obj. NewObjective scenario_channelId True scenario_state Alice = Inr obj \<and> Status obj = Approved)
   \<and> TurnNum (scenario_state\<lparr>TurnNum := 1\<rparr>) \<noteq> 0
   \<and> (\<exists>err. NewObjective scenario_channelId True (scenario_state\<lparr>TurnNum := 1\<rparr>) Alice = Inl err)
   \<and> IsFinal (scenario_state\<lparr>IsFinal := True\<rparr>)
   \<and> (\<exists>err. NewObjective scenario_channelId True (scenario_state\<lparr>IsFinal := True\<rparr>) Alice = Inl err)"
proof -
  have h: "TurnNum scenario_state = 0 \<and> \<not> IsFinal scenario_state
   \<and> Alice \<in> set (Participants scenario_state)"
    by (simp add: scenario_state_def)
  have h1: "TurnNum (scenario_state\<lparr>TurnNum := 1\<rparr>) \<noteq> 0" by simp
  have h2: "IsFinal (scenario_state\<lparr>IsFinal := True\<rparr>)" by simp
  show ?thesis
    using h h1 h2
      NewObjective_requires_prefund [of scenario_state scenario_channelId True Alice]
      NewObjective_requires_prefund [of "scenario_state\<lparr>TurnNum := 1\<rparr>" scenario_channelId True Alice]
      NewObjective_requires_prefund [of "scenario_state\<lparr>IsFinal := True\<rparr>" scenario_channelId True Alice]
    by simp
qed

text \<open>
  C9. Serializing a direct-fund objective and deserializing it back (into any receiver)
  yields an objective with the same Status, deposit safety threshold, deposit target and
  fully-funded threshold, whose channel is the zero channel carrying only the original
  channel's id: signed states, holdings and participants are discarded.
\<close>
theorem Marshal_Unmarshal_keeps_channel_id_only:
  "UnmarshalJSON receiver (MarshalJSON obj) =
     Inr \<lparr>Status = Status obj, C = Channel_zero\<lparr>Id_c := Id_c (C obj)\<rparr>,
          myDepositSafetyThreshold = myDepositSafetyThreshold obj,
          myDepositTarget = myDepositTarget obj,
          fullyFundedThreshold = fullyFundedThreshold obj\<rparr>
   \<and> SignedStateForTurnNum (Channel_zero\<lparr>Id_c := Id_c (C obj)\<rparr>) = Map.empty
   \<and> OnChainFunding (Channel_zero\<lparr>Id_c := Id_c (C obj)\<rparr>) = []
   \<and> Participants (Channel_zero\<lparr>Id_c := Id_c (C obj)\<rparr>) = []
   \<and> latestSupportedStateTurnNum (Channel_zero\<lparr>Id_c := Id_c (C obj)\<rparr>) = None"
  by (simp add: UnmarshalJSON_def MarshalJSON_def json_Marshal_def json_Unmarshal_def Channel_zero_def)

theorem Marshal_Unmarshal_keeps_channel_id_only_witness:
  "UnmarshalJSON unapproved_objective (MarshalJSON scenario_objective) =
     Inr \<lparr>Status = Approved, C = Channel_zero\<lparr>Id_c := 1\<rparr>,
          myDepositSafetyThreshold = [(0, 0)], myDepositTarget = [(0, 5)],
          fullyFundedThreshold = [(0, 10)]\<rparr>
   \<and> Participants (C scenario_objective) = [Alice, Bob]
   \<and> OnChainFunding (C scenario_objective) = [(0, 0)]
   \<and> Participants (Channel_zero\<lparr>Id_c := 1\<rparr>) = []
   \<and> OnChainFunding (Channel_zero\<lparr>Id_c := 1\<rparr>) = []"
  using Marshal_Unmarshal_keeps_channel_id_only [of unapproved_objective scenario_objective]
  by (simp add: scenario_objective_def scenario_channel_def)

lemmas chan_defs = PreFundSignedByMe_def PreFundComplete_def PostFundSignedByMe_def PostFundComplete_def
      SignedByMe_def SignedByAll_def signedBy_def signedByAll_def PreFundTurnNum_def PostFundTurnNum_def

lemma two_asset_prefund_complete: "PreFundComplete (C two_asset_objective)"
  by (simp add: two_asset_objective_def scenario_channel_def chan_defs two_asset_state_def scenario_state_def)

lemma two_asset_prefund_signed: "PreFundSignedByMe (C two_asset_objective)"
  by (simp add: two_asset_objective_def scenario_channel_def chan_defs two_asset_state_def scenario_state_def)

lemma two_asset_not_funded: "\<not> fundingComplete two_asset_objective"
  by (simp add: two_asset_objective_def scenario_channel_def fundingComplete_def Gt_def)

lemma two_asset_amount: "amountToDeposit two_asset_objective = Inr [(0, 5), (1, - 2)]"
  by (simp add: two_asset_objective_def scenario_channel_def amountToDeposit_def)

lemma two_asset_safe: "safeToDeposit two_asset_objective = Inr True"
  by (simp add: two_asset_objective_def scenario_channel_def safeToDeposit_def Gt_def)

lemma two_asset_fields: "Status two_asset_objective = Approved" "Id_c (C two_asset_objective) = 1"
  by (simp_all add: two_asset_objective_def scenario_channel_def)

lemma two_asset_Crank_Funding: "Crank_Funding two_asset_objective SideEffects_zero sk =
   Inr (two_asset_objective,
        SideEffects_zero\<lparr>TransactionsToSubmit := [\<lparr>tx_ChannelId = 1, Deposit = [(0, 5), (1, - 2)]\<rparr>]\<rparr>,
        WaitingForCompleteFunding, None)"
  by (simp add: Crank_Funding_def two_asset_prefund_complete two_asset_not_funded two_asset_amount two_asset_safe two_asset_fields IsNonZero_def SideEffects_zero_def)

lemma two_asset_Crank: "Crank two_asset_objective sk =
   Inr (two_asset_objective,
        SideEffects_zero\<lparr>TransactionsToSubmit := [\<lparr>tx_ChannelId = 1, Deposit = [(0, 5), (1, - 2)]\<rparr>]\<rparr>,
        WaitingForCompleteFunding, None)"
  by (simp add: Crank_def clone_id two_asset_prefund_signed two_asset_fields two_asset_Crank_Funding)

text \<open>
  C2, at the two-asset objective in its funding phase (prefund complete, funding not
  complete): Crank declares a deposit of 5 for asset 0 and of -2 for asset 1, whose
  holdings (7) exceed the deposit target (5).
\<close>
theorem Crank_negative_deposit:
  "PreFundComplete (C two_asset_objective) \<and> \<not> fundingComplete two_asset_objective
   \<and> declared (Crank two_asset_objective (SecretKey Alice)) =
       Some ([], [\<lparr>tx_ChannelId = 1, Deposit = [(0, 5), (1, - 2)]\<rparr>], WaitingForCompleteFunding, None)"
  by (simp add: two_asset_prefund_complete two_asset_not_funded two_asset_Crank declared_def SideEffects_zero_def)

subsection \<open>Cranking the returned objective again\<close>

lemma SignAndAddState_Inr:
  assumes "SignAndAddState c t sk = Inr (ss, c')"
  shows "\<exists>stored i. SignedStateForTurnNum c t = Some stored
           \<and> indexOf (addressOf sk) (Participants (state stored)) 0 = Some i
           \<and> ss = \<lparr>state = state stored, sigs = [i \<mapsto> Sig (addressOf sk)]\<rparr>
           \<and> SignedStateForTurnNum c' =
                (SignedStateForTurnNum c)(t \<mapsto> stored\<lparr>sigs := (sigs stored)(i \<mapsto> Sig (addressOf sk))\<rparr>)
           \<and> OnChainFunding c' = OnChainFunding c \<and> Id_c c' = Id_c c \<and> MyIndex c' = MyIndex c"
  using assms
  by (auto simp: SignAndAddState_def Let_def split: option.splits)

lemma sign_facts:
  assumes S: "SignAndAddState c t sk = Inr (ss, c')"
    and K: "signsAsMe c sk"
    and T: "t = PreFundTurnNum \<or> t = PostFundTurnNum"
  shows "SignedByMe c' t"
    and "signsAsMe c' sk"
    and "OnChainFunding c' = OnChainFunding c"
    and "Id_c c' = Id_c c"
    and "MyIndex c' = MyIndex c"
    and "t' \<noteq> t \<Longrightarrow> SignedByMe c' t' = SignedByMe c t'"
    and "t' \<noteq> t \<Longrightarrow> SignedByAll c' t' = SignedByAll c t'"
proof -
  from SignAndAddState_Inr [OF S] obtain stored i where
    st: "SignedStateForTurnNum c t = Some stored"
    and i: "indexOf (addressOf sk) (Participants (state stored)) 0 = Some i"
    and m: "SignedStateForTurnNum c' =
                (SignedStateForTurnNum c)(t \<mapsto> stored\<lparr>sigs := (sigs stored)(i \<mapsto> Sig (addressOf sk))\<rparr>)"
    and oc: "OnChainFunding c' = OnChainFunding c" "Id_c c' = Id_c c" "MyIndex c' = MyIndex c"
    by blast
  from K T st i have im: "i = MyIndex c"
    by (auto simp: signsAsMe_def)
  show "SignedByMe c' t"
    by (simp add: SignedByMe_def m oc im signedBy_def split: option.splits)
  show "signsAsMe c' sk"
    using K T st i by (auto simp: signsAsMe_def m oc PreFundTurnNum_def PostFundTurnNum_def split: option.splits)
  show "OnChainFunding c' = OnChainFunding c" "Id_c c' = Id_c c" "MyIndex c' = MyIndex c"
    by (rule oc)+
  show "t' \<noteq> t \<Longrightarrow> SignedByMe c' t' = SignedByMe c t'"
    by (simp add: SignedByMe_def m oc split: option.splits)
  show "t' \<noteq> t \<Longrightarrow> SignedByAll c' t' = SignedByAll c t'"
    by (simp add: SignedByAll_def m)
qed

lemma ne_turns: "PreFundTurnNum \<noteq> PostFundTurnNum" "PostFundTurnNum \<noteq> PreFundTurnNum"
  by (simp_all add: PreFundTurnNum_def PostFundTurnNum_def)

text \<open>What the postfunding part returns, and that its returned objective is a fixed point.\<close>
lemma Crank_Postfunding_again:
  assumes K: "signsAsMe (C u) sk"
    and R: "Crank_Postfunding u se sk = Inr (u', se', waitingFor, err)"
  shows "Crank_Postfunding u' se0 sk = Inr (u', if err = None then se0 else SideEffects_zero, waitingFor, err)"
    and "TransactionsToSubmit se' = (if err = None then TransactionsToSubmit se else [])"
    and "ProposalsToProcess se' = (if err = None then ProposalsToProcess se else [])"
    and "u' = u \<or> (\<exists>ss c'. SignAndAddPostfund (C u) sk = Inr (ss, c') \<and> u' = u\<lparr>C := c'\<rparr>)"
proof -
  show d: "u' = u \<or> (\<exists>ss c'. SignAndAddPostfund (C u) sk = Inr (ss, c') \<and> u' = u\<lparr>C := c'\<rparr>)"
    using R by (auto simp: Crank_Postfunding_def Let_def split: if_splits sum.splits)
  show "TransactionsToSubmit se' = (if err = None then TransactionsToSubmit se else [])"
    using R by (auto simp: Crank_Postfunding_def Let_def SideEffects_zero_def split: if_splits sum.splits)
  show "ProposalsToProcess se' = (if err = None then ProposalsToProcess se else [])"
    using R by (auto simp: Crank_Postfunding_def Let_def SideEffects_zero_def split: if_splits sum.splits)
  show "Crank_Postfunding u' se0 sk = Inr (u', if err = None then se0 else SideEffects_zero, waitingFor, err)"
  proof (cases "PostFundSignedByMe (C u)")
    case True
    with R show ?thesis
      by (auto simp: Crank_Postfunding_def split: if_splits)
  next
    case False
    show ?thesis
    proof (cases "SignAndAddPostfund (C u) sk")
      case (Inl e)
      with False R show ?thesis
        by (auto simp: Crank_Postfunding_def)
    next
      case (Inr p)
      then obtain ss c' where p: "SignAndAddPostfund (C u) sk = Inr (ss, c')"
        by (cases p) auto
      have s: "SignAndAddState (C u) PostFundTurnNum sk = Inr (ss, c')"
        using p by (simp add: SignAndAddPostfund_def)
      have signed: "PostFundSignedByMe c'"
        using sign_facts(1) [OF s K] by (simp add: PostFundSignedByMe_def)
      from False p R have u': "u' = u\<lparr>C := c'\<rparr>" and e: "err = None"
        and w: "waitingFor = (if \<not> PostFundComplete c' then WaitingForCompletePostFund else WaitingForNothing)"
        by (auto simp: Crank_Postfunding_def Let_def split: if_splits)
      show ?thesis
        by (simp add: Crank_Postfunding_def u' e w signed)
    qed
  qed
qed

lemma Crank_Postfunding_keeps:
  assumes K: "signsAsMe (C u) sk"
    and R: "Crank_Postfunding u se sk = Inr (u', se', waitingFor, err)"
  shows "signsAsMe (C u') sk"
    and "Status u' = Status u"
    and "OnChainFunding (C u') = OnChainFunding (C u)"
    and "Id_c (C u') = Id_c (C u)"
    and "myDepositSafetyThreshold u' = myDepositSafetyThreshold u"
    and "myDepositTarget u' = myDepositTarget u"
    and "fullyFundedThreshold u' = fullyFundedThreshold u"
    and "PreFundSignedByMe (C u') = PreFundSignedByMe (C u)"
    and "PreFundComplete (C u') = PreFundComplete (C u)"
proof -
  from Crank_Postfunding_again(4) [OF K R]
  consider "u' = u" | ss c' where "SignAndAddState (C u) PostFundTurnNum sk = Inr (ss, c')" "u' = u\<lparr>C := c'\<rparr>"
    by (auto simp: SignAndAddPostfund_def)
  then have "signsAsMe (C u') sk \<and> Status u' = Status u
    \<and> OnChainFunding (C u') = OnChainFunding (C u) \<and> Id_c (C u') = Id_c (C u)
    \<and> myDepositSafetyThreshold u' = myDepositSafetyThreshold u
    \<and> myDepositTarget u' = myDepositTarget u
    \<and> fullyFundedThreshold u' = fullyFundedThreshold u
    \<and> PreFundSignedByMe (C u') = PreFundSignedByMe (C u)
    \<and> PreFundComplete (C u') = PreFundComplete (C u)"
  proof cases
    case 1
    then show ?thesis using K by simp
  next
    case 2
    note f = sign_facts [OF 2(1) K]
    show ?thesis
      using f(2,3,4) f(6) [of PreFundTurnNum] f(7) [of PreFundTurnNum]
      by (simp add: 2(2) PreFundSignedByMe_def PreFundComplete_def ne_turns)
  qed
  then show "signsAsMe (C u') sk"
    and "Status u' = Status u"
    and "OnChainFunding (C u') = OnChainFunding (C u)"
    and "Id_c (C u') = Id_c (C u)"
    and "myDepositSafetyThreshold u' = myDepositSafetyThreshold u"
    and "myDepositTarget u' = myDepositTarget u"
    and "fullyFundedThreshold u' = fullyFundedThreshold u"
    and "PreFundSignedByMe (C u') = PreFundSignedByMe (C u)"
    and "PreFundComplete (C u') = PreFundComplete (C u)"
    by simp_all
qed

lemma funding_eq:
  assumes "OnChainFunding (C u') = OnChainFunding (C u)"
    and "myDepositSafetyThreshold u' = myDepositSafetyThreshold u"
    and "myDepositTarget u' = myDepositTarget u"
    and "fullyFundedThreshold u' = fullyFundedThreshold u"
  shows "fundingComplete u' = fundingComplete u"
    and "amountToDeposit u' = amountToDeposit u"
    and "safeToDeposit u' = safeToDeposit u"
  using assms by (simp_all add: fundingComplete_def amountToDeposit_def safeToDeposit_def)

text \<open>The deposit that the funding part adds to the transactions, if any.\<close>
lemma Crank_Funding_again:
  assumes K: "signsAsMe (C u) sk"
    and R: "Crank_Funding u se sk = Inr (u', se', waitingFor, err)"
  shows "\<exists>D. TransactionsToSubmit se' = (if err = None then TransactionsToSubmit se @ D else [])
           \<and> (\<forall>se0. \<exists>se0'. Crank_Funding u' se0 sk = Inr (u', se0', waitingFor, err)
                 \<and> MessagesToSend se0' = (if err = None then MessagesToSend se0 else [])
                 \<and> TransactionsToSubmit se0' = (if err = None then TransactionsToSubmit se0 @ D else [])
                 \<and> ProposalsToProcess se0' = (if err = None then ProposalsToProcess se0 else []))"
    and "Status u' = Status u"
    and "PreFundSignedByMe (C u) \<Longrightarrow> PreFundSignedByMe (C u')"
proof -
  have "(\<exists>D. TransactionsToSubmit se' = (if err = None then TransactionsToSubmit se @ D else [])
           \<and> (\<forall>se0. \<exists>se0'. Crank_Funding u' se0 sk = Inr (u', se0', waitingFor, err)
                 \<and> MessagesToSend se0' = (if err = None then MessagesToSend se0 else [])
                 \<and> TransactionsToSubmit se0' = (if err = None then TransactionsToSubmit se0 @ D else [])
                 \<and> ProposalsToProcess se0' = (if err = None then ProposalsToProcess se0 else [])))
        \<and> Status u' = Status u \<and> (PreFundSignedByMe (C u) \<longrightarrow> PreFundSignedByMe (C u'))"
  proof (cases "PreFundComplete (C u)")
    case False
    with R have "u' = u" "se' = se" "waitingFor = WaitingForCompletePrefund" "err = None"
      by (auto simp: Crank_Funding_def)
    with False show ?thesis
      by (auto simp: Crank_Funding_def intro!: exI [of _ "[]"])
  next
    case True
    from True R obtain a where a: "amountToDeposit u = Inr a"
      by (cases "amountToDeposit u") (auto simp: Crank_Funding_def)
    from True R a obtain s where s: "safeToDeposit u = Inr s"
      by (cases "safeToDeposit u") (auto simp: Crank_Funding_def)
    define D where "D = (if \<not> fundingComplete u \<and> s \<and> IsNonZero a
                         then [\<lparr>tx_ChannelId = Id_c (C u), Deposit = a\<rparr>] else [])"
    show ?thesis
    proof (cases "fundingComplete u")
      case False
      from False True a s R have r: "u' = u" "err = None"
        "TransactionsToSubmit se' = TransactionsToSubmit se @ D"
        "waitingFor = (if s then WaitingForCompleteFunding else WaitingForMyTurnToFund)"
        by (auto simp: Crank_Funding_def D_def Let_def split: if_splits)
      have "\<forall>se0. \<exists>se0'. Crank_Funding u se0 sk = Inr (u, se0', waitingFor, None)
                 \<and> MessagesToSend se0' = MessagesToSend se0
                 \<and> TransactionsToSubmit se0' = TransactionsToSubmit se0 @ D
                 \<and> ProposalsToProcess se0' = ProposalsToProcess se0"
        using False True a s by (auto simp: Crank_Funding_def D_def Let_def r(4))
      with r show ?thesis by auto
    next
      case fc: True
      from fc True a s R have p: "Crank_Postfunding u se sk = Inr (u', se', waitingFor, err)"
        by (auto simp: Crank_Funding_def Let_def)
      note k = Crank_Postfunding_keeps [OF K p]
      note g = funding_eq [OF k(3) k(5) k(6) k(7)]
      have again: "\<And>se0. Crank_Funding u' se0 sk =
                     Inr (u', if err = None then se0 else SideEffects_zero, waitingFor, err)"
        using Crank_Postfunding_again(1) [OF K p] fc True a s
        by (simp add: Crank_Funding_def Let_def g k(9))
      have "TransactionsToSubmit se' = (if err = None then TransactionsToSubmit se @ [] else [])"
        using Crank_Postfunding_again(2) [OF K p] by simp
      moreover have "\<forall>se0. \<exists>se0'. Crank_Funding u' se0 sk = Inr (u', se0', waitingFor, err)
                 \<and> MessagesToSend se0' = (if err = None then MessagesToSend se0 else [])
                 \<and> TransactionsToSubmit se0' = (if err = None then TransactionsToSubmit se0 @ [] else [])
                 \<and> ProposalsToProcess se0' = (if err = None then ProposalsToProcess se0 else [])"
        by (cases err) (simp_all add: again SideEffects_zero_def)
      ultimately show ?thesis
        using k(2) k(8) by blast
    qed
  qed
  then show "\<exists>D. TransactionsToSubmit se' = (if err = None then TransactionsToSubmit se @ D else [])
           \<and> (\<forall>se0. \<exists>se0'. Crank_Funding u' se0 sk = Inr (u', se0', waitingFor, err)
                 \<and> MessagesToSend se0' = (if err = None then MessagesToSend se0 else [])
                 \<and> TransactionsToSubmit se0' = (if err = None then TransactionsToSubmit se0 @ D else [])
                 \<and> ProposalsToProcess se0' = (if err = None then ProposalsToProcess se0 else []))"
    and "Status u' = Status u"
    and "PreFundSignedByMe (C u) \<Longrightarrow> PreFundSignedByMe (C u')"
    by blast+
qed

lemma Crank_signed:
  "Status u = Approved \<Longrightarrow> PreFundSignedByMe (C u) \<Longrightarrow>
     Crank u sk = Crank_Funding u SideEffects_zero sk"
  by (simp add: Crank_def clone_id)

lemma Crank_again_lemma:
  assumes K: "signsAsMe (C obj) sk"
    and R: "Crank obj sk = Inr (updated, se, waitingFor, err)"
  shows "\<exists>se'. Crank updated sk = Inr (updated, se', waitingFor, err)
           \<and> MessagesToSend se' = []
           \<and> TransactionsToSubmit se' = TransactionsToSubmit se
           \<and> ProposalsToProcess se' = []"
proof (cases "Status obj = Approved")
  case False
  with R have "updated = obj" "se = SideEffects_zero" "waitingFor = WaitingForNothing"
    "err = Some ErrNotApproved"
    by (auto simp: Crank_def clone_id)
  with False show ?thesis
    by (simp add: Crank_def clone_id SideEffects_zero_def)
next
  case A: True
  have fin: "\<exists>se'. Crank updated sk = Inr (updated, se', waitingFor, err)
           \<and> MessagesToSend se' = []
           \<and> TransactionsToSubmit se' = TransactionsToSubmit se
           \<and> ProposalsToProcess se' = []"
    if k: "signsAsMe (C u) sk" and st: "Status u = Approved" and sg: "PreFundSignedByMe (C u)"
      and r: "Crank_Funding u se1 sk = Inr (updated, se, waitingFor, err)"
      and t1: "TransactionsToSubmit se1 = []"
    for u se1
  proof -
    from Crank_Funding_again(1) [OF k r] obtain D where
      d: "TransactionsToSubmit se = (if err = None then TransactionsToSubmit se1 @ D else [])"
      and n: "\<forall>se0. \<exists>se0'. Crank_Funding updated se0 sk = Inr (updated, se0', waitingFor, err)
                 \<and> MessagesToSend se0' = (if err = None then MessagesToSend se0 else [])
                 \<and> TransactionsToSubmit se0' = (if err = None then TransactionsToSubmit se0 @ D else [])
                 \<and> ProposalsToProcess se0' = (if err = None then ProposalsToProcess se0 else [])"
      by blast
    from n obtain se' where
      s: "Crank_Funding updated SideEffects_zero sk = Inr (updated, se', waitingFor, err)"
         "MessagesToSend se' = (if err = None then MessagesToSend SideEffects_zero else [])"
         "TransactionsToSubmit se' =
            (if err = None then TransactionsToSubmit SideEffects_zero @ D else [])"
         "ProposalsToProcess se' = (if err = None then ProposalsToProcess SideEffects_zero else [])"
      by blast
    have "Crank updated sk = Crank_Funding updated SideEffects_zero sk"
      using Crank_Funding_again(2) [OF k r] Crank_Funding_again(3) [OF k r sg] st
      by (simp add: Crank_signed)
    with s d t1 show ?thesis
      by (simp add: SideEffects_zero_def)
  qed
  show ?thesis
  proof (cases "PreFundSignedByMe (C obj)")
    case True
    with A R have "Crank_Funding obj SideEffects_zero sk = Inr (updated, se, waitingFor, err)"
      by (simp add: Crank_signed)
    from fin [OF K A True this] show ?thesis
      by (simp add: SideEffects_zero_def)
  next
    case N: False
    show ?thesis
    proof (cases "SignAndAddPrefund (C obj) sk")
      case (Inl e)
      with A N R have "updated = obj" "se = SideEffects_zero"
        "waitingFor = WaitingForCompletePrefund" "err = Some (ErrWrap ''could not sign prefund'' e)"
        by (auto simp: Crank_def clone_id)
      with A N Inl show ?thesis
        by (simp add: Crank_def clone_id SideEffects_zero_def)
    next
      case (Inr p)
      then obtain ss c' where p: "SignAndAddPrefund (C obj) sk = Inr (ss, c')"
        by (cases p) auto
      have s: "SignAndAddState (C obj) PreFundTurnNum sk = Inr (ss, c')"
        using p by (simp add: SignAndAddPrefund_def)
      note f = sign_facts [OF s K]
      define se1 where "se1 = SideEffects_zero\<lparr>MessagesToSend :=
        MessagesToSend SideEffects_zero @
          CreateSignedStateMessages (Objective_Id (obj\<lparr>C := c'\<rparr>)) ss (MyIndex c')\<rparr>"
      from A N p R have r: "Crank_Funding (obj\<lparr>C := c'\<rparr>) se1 sk = Inr (updated, se, waitingFor, err)"
        by (simp add: Crank_def clone_id Let_def se1_def)
      have "signsAsMe (C (obj\<lparr>C := c'\<rparr>)) sk" "Status (obj\<lparr>C := c'\<rparr>) = Approved"
        "PreFundSignedByMe (C (obj\<lparr>C := c'\<rparr>))" "TransactionsToSubmit se1 = []"
        using f(1,2) A by (simp_all add: PreFundSignedByMe_def se1_def SideEffects_zero_def)
      from fin [OF this(1) this(2) this(3) r this(4)] show ?thesis .
    qed
  qed
qed

text \<open>
  C1, as amended. For every direct-fund objective cranked with the secret key of its own
  participant: when a first crank returns, the crank of the objective it returned, with
  nothing changed in between, returns that same objective, the same WaitingFor value and
  the same error, sends no message (no signature is sent twice) and declares no ledger
  proposal, and it declares the same chain transactions as the first crank: a deposit
  declared by the first crank is declared again.
\<close>
theorem Crank_second_crank:
  assumes "signsAsMe (C obj) sk"
    and "Crank obj sk = Inr (updated, se, waitingFor, err)"
  shows "\<exists>se'. Crank updated sk = Inr (updated, se', waitingFor, err)
           \<and> MessagesToSend se' = []
           \<and> TransactionsToSubmit se' = TransactionsToSubmit se
           \<and> ProposalsToProcess se' = []"
  using assms by (rule Crank_again_lemma)


lemma scenario_own_key: "signsAsMe (C scenario_objective) (SecretKey Alice)"
  by (simp add: signsAsMe_def scenario_objective_def scenario_channel_def scenario_state_def
      PreFundTurnNum_def PostFundTurnNum_def)

lemma scenario_sign:
  "\<exists>ss c'. SignAndAddPrefund (C scenario_objective) (SecretKey Alice) = Inr (ss, c')
      \<and> Participants (state ss) = [Alice, Bob] \<and> PreFundComplete c'"
  by (simp add: SignAndAddPrefund_def SignAndAddState_def scenario_objective_def
      scenario_channel_def scenario_state_def chan_defs Let_def)

lemma scenario_facts:
  "Status scenario_objective = Approved"
  "\<not> PreFundSignedByMe (C scenario_objective)"
  "MyIndex (C scenario_objective) = 0"
  "Id_c (C scenario_objective) = 1"
  "OnChainFunding (C scenario_objective) = [(0, 0)]"
  "myDepositSafetyThreshold scenario_objective = [(0, 0)]"
  "myDepositTarget scenario_objective = [(0, 5)]"
  "fullyFundedThreshold scenario_objective = [(0, 10)]"
  by (simp_all add: scenario_objective_def scenario_channel_def chan_defs)

lemma scenario_first_crank:
  "\<exists>updated se. Crank scenario_objective (SecretKey Alice) =
       Inr (updated, se, WaitingForCompleteFunding, None)
     \<and> map To (MessagesToSend se) = [Bob]
     \<and> TransactionsToSubmit se = [\<lparr>tx_ChannelId = 1, Deposit = [(0, 5)]\<rparr>]"
proof -
  from scenario_sign obtain ss c' where
    p: "SignAndAddPrefund (C scenario_objective) (SecretKey Alice) = Inr (ss, c')"
    and ps: "Participants (state ss) = [Alice, Bob]" and pc: "PreFundComplete c'"
    by blast
  have s: "SignAndAddState (C scenario_objective) PreFundTurnNum (SecretKey Alice) = Inr (ss, c')"
    using p by (simp add: SignAndAddPrefund_def)
  note f = sign_facts [OF s scenario_own_key]
  define u where "u = scenario_objective\<lparr>C := c'\<rparr>"
  have fc: "\<not> fundingComplete u" and a: "amountToDeposit u = Inr [(0, 5)]"
    and sf: "safeToDeposit u = Inr True"
    using f(3) by (simp_all add: u_def fundingComplete_def amountToDeposit_def safeToDeposit_def
        scenario_facts Gt_def)
  have m: "map To (CreateSignedStateMessages oid ss 0) = [Bob]" for oid
    by (simp add: CreateSignedStateMessages_def ps upt_rec)
  have pcu: "PreFundComplete (C u)" "Id_c (C u) = 1"
    using pc f(4) by (simp_all add: u_def scenario_facts)
  have "Crank_Funding u se1 (SecretKey Alice) =
          Inr (u, se1\<lparr>TransactionsToSubmit := TransactionsToSubmit se1 @ [\<lparr>tx_ChannelId = 1, Deposit = [(0, 5)]\<rparr>]\<rparr>,
               WaitingForCompleteFunding, None)" for se1
    by (simp add: Crank_Funding_def fc a sf IsNonZero_def pcu)
  then show ?thesis
    using p f(5) by (simp add: Crank_def clone_id scenario_facts Let_def u_def [symmetric] m
        SideEffects_zero_def)
qed

text \<open>
  C1 fails as stated: in scenario 1, the first crank of A's objective signs the prefund
  state (one message, to B) and declares the deposit of 5; the crank of the objective it
  returns, with nothing changed in between, sends no message and declares the same
  deposit once more.
\<close>
theorem Crank_deposit_declared_again:
  "declared (Crank scenario_objective (SecretKey Alice)) =
     Some ([Bob], [\<lparr>tx_ChannelId = 1, Deposit = [(0, 5)]\<rparr>], WaitingForCompleteFunding, None)
   \<and> declared (crank_again scenario_objective (SecretKey Alice)) =
     Some ([], [\<lparr>tx_ChannelId = 1, Deposit = [(0, 5)]\<rparr>], WaitingForCompleteFunding, None)"
proof -
  from scenario_first_crank obtain updated se where
    c: "Crank scenario_objective (SecretKey Alice) = Inr (updated, se, WaitingForCompleteFunding, None)"
    and m: "map To (MessagesToSend se) = [Bob]"
    and t: "TransactionsToSubmit se = [\<lparr>tx_ChannelId = 1, Deposit = [(0, 5)]\<rparr>]"
    by auto
  from Crank_again_lemma [OF scenario_own_key c] obtain se' where
    c': "Crank updated (SecretKey Alice) = Inr (updated, se', WaitingForCompleteFunding, None)"
    and m': "MessagesToSend se' = []" and t': "TransactionsToSubmit se' = TransactionsToSubmit se"
    by blast
  show ?thesis
    by (simp add: declared_def crank_again_def c c' m m' t t')
qed

theorem Crank_second_crank_witness:
  "signsAsMe (C scenario_objective) (SecretKey Alice)
   \<and> (\<exists>updated se se'.
         Crank scenario_objective (SecretKey Alice) = Inr (updated, se, WaitingForCompleteFunding, None)
       \<and> map To (MessagesToSend se) = [Bob]
       \<and> Crank updated (SecretKey Alice) = Inr (updated, se', WaitingForCompleteFunding, None)
       \<and> MessagesToSend se' = []
       \<and> TransactionsToSubmit se' = TransactionsToSubmit se
       \<and> ProposalsToProcess se' = [])"
proof -
  from scenario_first_crank obtain updated se where
    c: "Crank scenario_objective (SecretKey Alice) = Inr (updated, se, WaitingForCompleteFunding, None)"
    and m: "map To (MessagesToSend se) = [Bob]"
    by auto
  from Crank_second_crank [OF scenario_own_key c] c m scenario_own_key show ?thesis
    by auto
qed

section \<open>Properties of the voucher manager\<close>

text \<open>
  C3 fails as stated: Receive does not require the amount to reach the stored largest.
  As in TestPaymentManager, after the voucher for 40 has been received, the older voucher
  for 20 is received without error; the call returns the unchanged total 40 and changes
  nothing.
\<close>
theorem Receive_old_voucher_accepted:
  "fst (Receive receiptMgr secondVoucher) = Inr 40
   \<and> v_Amount firstVoucher = 20
   \<and> Receive (snd (Receive receiptMgr secondVoucher)) firstVoucher =
       (Inr 40, snd (Receive receiptMgr secondVoucher))
   \<and> Balance_of (snd (Receive receiptMgr secondVoucher)) 1 = Inr \<lparr>Remaining = 960, Paid = 40\<rparr>"
  by (simp add: Receive_def receiptMgr_def Register_def NewVoucherManager_def ChannelRegistered_def
      firstVoucher_def secondVoucher_def testVoucher_def Voucher_Sign_def RecoverSigner_def
      Gt_def Balance_of_def)

text \<open>
  C3, as amended. For every channel registered with the voucher manager: a Receive that
  succeeds has verified that the voucher's signer is the registered payer and that the
  amount is within the starting balance; it returns the larger of the voucher's amount and
  the stored largest as the total paid, which is then the stored largest. A voucher at or
  below the stored largest (an equal or an older one) is accepted and leaves the manager
  unchanged. Every voucher of the payer within the starting balance is accepted, and the
  returned total paid never decreases over successive receives on the channel.
\<close>
theorem Receive_amended:
  assumes reg: "vm_channels vm (ChannelId voucher) = Some info"
  shows "(\<forall>total vm'. Receive vm voucher = (Inr total, vm') \<longrightarrow>
            RecoverSigner voucher = Some (ChannelPayer info)
          \<and> v_Amount voucher \<le> StartingBalance info
          \<and> total = max (v_Amount voucher) (LargestVoucher info)
          \<and> Balance_of vm' (ChannelId voucher) =
               Inr \<lparr>Remaining = StartingBalance info - total, Paid = total\<rparr>
          \<and> (v_Amount voucher \<le> LargestVoucher info \<longrightarrow> vm' = vm))
       \<and> (RecoverSigner voucher = Some (ChannelPayer info) \<and> v_Amount voucher \<le> StartingBalance info \<longrightarrow>
            (\<exists>vm'. Receive vm voucher = (Inr (max (v_Amount voucher) (LargestVoucher info)), vm')))
       \<and> (\<forall>total vm' voucher2 total2 vm''.
             Receive vm voucher = (Inr total, vm') \<and> ChannelId voucher2 = ChannelId voucher
             \<and> Receive vm' voucher2 = (Inr total2, vm'') \<longrightarrow> total \<le> total2)"
  using reg
  by (auto simp: Receive_def Balance_of_def Gt_def max_def split: if_splits option.splits)

lemma receiptMgr_registered:
  "vm_channels receiptMgr (ChannelId firstVoucher) =
     Some \<lparr>ChannelPayer = Alice, ChannelPayee = Bob, StartingBalance = 1000, LargestVoucher = 0\<rparr>"
  by (simp add: receiptMgr_def Register_def NewVoucherManager_def ChannelRegistered_def
      firstVoucher_def testVoucher_def Voucher_Sign_def)

lemma firstVoucher_signer: "RecoverSigner firstVoucher = Some Alice" "v_Amount firstVoucher = 20"
  by (simp_all add: firstVoucher_def testVoucher_def Voucher_Sign_def RecoverSigner_def)

theorem Receive_amended_witness:
  "vm_channels receiptMgr (ChannelId firstVoucher) =
     Some \<lparr>ChannelPayer = Alice, ChannelPayee = Bob, StartingBalance = 1000, LargestVoucher = 0\<rparr>
   \<and> RecoverSigner firstVoucher = Some Alice
   \<and> v_Amount firstVoucher = 20
   \<and> (\<exists>vm'. Receive receiptMgr firstVoucher = (Inr 20, vm'))"
  using Receive_amended [OF receiptMgr_registered] receiptMgr_registered firstVoucher_signer
  by simp

text \<open>
  C5. For a registered channel, receiving a voucher whose cumulative amount exceeds the
  starting balance returns an error and leaves the manager, hence the channel's stored
  balance (remaining and paid), unchanged; a voucher of the payer whose amount equals the
  starting balance exactly is accepted.
\<close>
theorem Receive_over_balance:
  assumes reg: "vm_channels vm (ChannelId voucher) = Some info"
  shows "(StartingBalance info < v_Amount voucher \<longrightarrow>
            (\<exists>err. Receive vm voucher = (Inl err, vm))
          \<and> Balance_of (snd (Receive vm voucher)) (ChannelId voucher) = Balance_of vm (ChannelId voucher))
       \<and> (v_Amount voucher = StartingBalance info \<and> RecoverSigner voucher = Some (ChannelPayer info) \<longrightarrow>
            (\<exists>total vm'. Receive vm voucher = (Inr total, vm')
               \<and> total = max (StartingBalance info) (LargestVoucher info)))"
  using reg
  by (auto simp: Receive_def Gt_def max_def split: if_splits)

lemma receiptMgr_registered_any:
  "vm_channels receiptMgr (ChannelId (testVoucher 1 n (SecretKey Alice))) =
     Some \<lparr>ChannelPayer = Alice, ChannelPayee = Bob, StartingBalance = 1000, LargestVoucher = 0\<rparr>"
  by (simp add: receiptMgr_def Register_def NewVoucherManager_def ChannelRegistered_def
      testVoucher_def Voucher_Sign_def)

lemma testVoucher_signer:
  "RecoverSigner (testVoucher c n (SecretKey a)) = Some a" "v_Amount (testVoucher c n k) = n"
  by (simp_all add: testVoucher_def Voucher_Sign_def RecoverSigner_def)

theorem Receive_over_balance_witness:
  "vm_channels receiptMgr (ChannelId (testVoucher 1 2000 (SecretKey Alice))) =
     Some \<lparr>ChannelPayer = Alice, ChannelPayee = Bob, StartingBalance = 1000, LargestVoucher = 0\<rparr>
   \<and> (1000::int) < v_Amount (testVoucher 1 2000 (SecretKey Alice))
   \<and> (\<exists>err. Receive receiptMgr (testVoucher 1 2000 (SecretKey Alice)) = (Inl err, receiptMgr))
   \<and> v_Amount (testVoucher 1 1000 (SecretKey Alice)) = 1000
   \<and> RecoverSigner (testVoucher 1 1000 (SecretKey Alice)) = Some Alice
   \<and> (\<exists>vm'. Receive receiptMgr (testVoucher 1 1000 (SecretKey Alice)) = (Inr 1000, vm'))"
  using Receive_over_balance [OF receiptMgr_registered_any [of 2000]]
    Receive_over_balance [OF receiptMgr_registered_any [of 1000]]
    receiptMgr_registered_any [of 2000] testVoucher_signer
  by simp

section \<open>Properties of the consensus channel\<close>

lemma sum_delete:
  "distinct (map fst xs) \<Longrightarrow> map_of xs k = Some g \<Longrightarrow>
     sum_list (map (\<lambda>(t, g). g_amount g) (AList.delete k xs)) + g_amount g =
     sum_list (map (\<lambda>(t, g). g_amount g) xs)"
proof (induction xs)
  case Nil
  then show ?case by simp
next
  case (Cons x xs)
  obtain t h where x: "x = (t, h)" by (cases x)
  show ?case
  proof (cases "t = k")
    case True
    with Cons.prems x have "h = g" "k \<notin> fst ` set xs" by auto
    then show ?thesis using x True by (simp add: AList.delete_id)
  next
    case False
    with Cons x show ?thesis by (simp add: AList.delete_eq)
  qed
qed

lemma Add_conserves:
  assumes "LedgerOutcome_Add lo a = Inr lo'"
  shows "ledgerTotal lo' = ledgerTotal lo"
    and "keyedByTarget lo \<Longrightarrow> keyedByTarget lo'"
    and "map_of (guarantees lo) (g_target (Guarantee a)) = None"
    and "lb_amount (leader lo') = lb_amount (leader lo) - LeftDeposit a"
    and "lb_amount (follower lo') = lb_amount (follower lo) - (g_amount (Guarantee a) - LeftDeposit a)"
    and "map_of (guarantees lo') = (map_of (guarantees lo))(g_target (Guarantee a) \<mapsto> Guarantee a)"
proof -
  from assms have n: "map_of (guarantees lo) (g_target (Guarantee a)) = None"
    and lo': "lo' = lo\<lparr>leader := (leader lo)\<lparr>lb_amount := lb_amount (leader lo) - LeftDeposit a\<rparr>,
                      follower := (follower lo)\<lparr>lb_amount := lb_amount (follower lo) - (g_amount (Guarantee a) - LeftDeposit a)\<rparr>,
                      guarantees := guarantees lo @ [(g_target (Guarantee a), Guarantee a)]\<rparr>"
    by (auto simp: LedgerOutcome_Add_def Let_def split: if_splits)
  show "ledgerTotal lo' = ledgerTotal lo"
    by (simp add: lo' ledgerTotal_def)
  show "keyedByTarget lo \<Longrightarrow> keyedByTarget lo'"
    using n by (simp add: lo' keyedByTarget_def map_of_eq_None_iff)
  show "map_of (guarantees lo) (g_target (Guarantee a)) = None" by (rule n)
  show "lb_amount (leader lo') = lb_amount (leader lo) - LeftDeposit a"
    and "lb_amount (follower lo') = lb_amount (follower lo) - (g_amount (Guarantee a) - LeftDeposit a)"
    by (simp_all add: lo')
  show "map_of (guarantees lo') = (map_of (guarantees lo))(g_target (Guarantee a) \<mapsto> Guarantee a)"
  proof (rule ext)
    fix x
    show "map_of (guarantees lo') x = ((map_of (guarantees lo))(g_target (Guarantee a) \<mapsto> Guarantee a)) x"
      using n by (cases "map_of (guarantees lo) x") (auto simp: lo' map_add_def)
  qed
qed

lemma Remove_conserves:
  assumes "LedgerOutcome_Remove lo r = Inr lo'" and "keyedByTarget lo"
  shows "ledgerTotal lo' = ledgerTotal lo"
    and "keyedByTarget lo'"
    and "\<exists>g. map_of (guarantees lo) (Target r) = Some g
           \<and> 0 \<le> LeftAmount r \<and> LeftAmount r \<le> g_amount g
           \<and> lb_amount (leader lo') = lb_amount (leader lo) + LeftAmount r
           \<and> lb_amount (follower lo') = lb_amount (follower lo) + (g_amount g - LeftAmount r)"
    and "map_of (guarantees lo') = (map_of (guarantees lo))(Target r := None)"
proof -
  from assms(1) obtain g where g: "map_of (guarantees lo) (Target r) = Some g"
    and le: "0 \<le> LeftAmount r" "LeftAmount r \<le> g_amount g"
    and lo': "lo' = lo\<lparr>leader := (leader lo)\<lparr>lb_amount := lb_amount (leader lo) + LeftAmount r\<rparr>,
                       follower := (follower lo)\<lparr>lb_amount := lb_amount (follower lo) + (g_amount g - LeftAmount r)\<rparr>,
                       guarantees := AList.delete (Target r) (guarantees lo)\<rparr>"
    by (auto simp: LedgerOutcome_Remove_def Gt_def split: option.splits if_splits)
  from assms(2) have d: "distinct (map fst (guarantees lo))" by (simp add: keyedByTarget_def)
  show "ledgerTotal lo' = ledgerTotal lo"
    using sum_delete [OF d g] by (simp add: lo' ledgerTotal_def)
  show "keyedByTarget lo'"
    using d by (simp add: lo' keyedByTarget_def AList.distinct_delete)
  show "\<exists>g. map_of (guarantees lo) (Target r) = Some g
           \<and> 0 \<le> LeftAmount r \<and> LeftAmount r \<le> g_amount g
           \<and> lb_amount (leader lo') = lb_amount (leader lo) + LeftAmount r
           \<and> lb_amount (follower lo') = lb_amount (follower lo) + (g_amount g - LeftAmount r)"
    using g le by (simp add: lo')
  show "map_of (guarantees lo') = (map_of (guarantees lo))(Target r := None)"
    by (simp add: lo' AList.delete_conv')
qed

lemma applyProposal_conserves:
  "keyedByTarget lo \<Longrightarrow> applyProposal lo p = Inr lo' \<Longrightarrow>
     ledgerTotal lo' = ledgerTotal lo \<and> keyedByTarget lo'"
  by (cases p) (auto simp: applyProposal_def Add_conserves Remove_conserves)

lemma applyProposals_conserves:
  "keyedByTarget lo \<Longrightarrow> applyProposals lo ps = Inr lo' \<Longrightarrow>
     ledgerTotal lo' = ledgerTotal lo \<and> keyedByTarget lo'"
proof (induction ps arbitrary: lo)
  case Nil
  then show ?case by simp
next
  case (Cons p ps)
  from Cons.prems(2) obtain lo1 where 1: "applyProposal lo p = Inr lo1"
    and 2: "applyProposals lo1 ps = Inr lo'"
    by (auto split: sum.splits)
  from applyProposal_conserves [OF Cons.prems(1) 1] Cons.IH [OF _ 2] show ?case by simp
qed

text \<open>
  C4. ConsensusChannel conservation: applying any legal Add or Remove proposal, or any
  queue of them, to a ledger outcome whose guarantees are keyed by target leaves
  left + right + the sum of the guarantee amounts unchanged. An Add moves leftDeposit out
  of L and amount - leftDeposit out of R into a new guarantee for the target; a Remove of a
  guarantee of amount a returns leftAmount to L and a - leftAmount to R and deletes the
  guarantee.
\<close>
theorem ConsensusChannel_conservation:
  assumes "keyedByTarget lo"
  shows "(\<forall>ps lo'. applyProposals lo ps = Inr lo' \<longrightarrow> ledgerTotal lo' = ledgerTotal lo \<and> keyedByTarget lo')
    \<and> (\<forall>a lo'. applyProposal lo (AddProposal a) = Inr lo' \<longrightarrow>
          ledgerTotal lo' = ledgerTotal lo
        \<and> map_of (guarantees lo) (g_target (Guarantee a)) = None
        \<and> lb_amount (leader lo') = lb_amount (leader lo) - LeftDeposit a
        \<and> lb_amount (follower lo') = lb_amount (follower lo) - (g_amount (Guarantee a) - LeftDeposit a)
        \<and> map_of (guarantees lo') = (map_of (guarantees lo))(g_target (Guarantee a) \<mapsto> Guarantee a))
    \<and> (\<forall>r lo'. applyProposal lo (RemoveProposal r) = Inr lo' \<longrightarrow>
          ledgerTotal lo' = ledgerTotal lo
        \<and> (\<exists>g. map_of (guarantees lo) (Target r) = Some g
              \<and> lb_amount (leader lo') = lb_amount (leader lo) + LeftAmount r
              \<and> lb_amount (follower lo') = lb_amount (follower lo) + (g_amount g - LeftAmount r))
        \<and> map_of (guarantees lo') = (map_of (guarantees lo))(Target r := None))"
proof (intro conjI allI impI)
  fix ps lo' assume "applyProposals lo ps = Inr lo'"
  from applyProposals_conserves [OF assms this]
  show "ledgerTotal lo' = ledgerTotal lo" "keyedByTarget lo'" by simp_all
next
  fix a lo' assume "applyProposal lo (AddProposal a) = Inr lo'"
  then have a: "LedgerOutcome_Add lo a = Inr lo'" by (simp add: applyProposal_def)
  show "ledgerTotal lo' = ledgerTotal lo"
    "map_of (guarantees lo) (g_target (Guarantee a)) = None"
    "lb_amount (leader lo') = lb_amount (leader lo) - LeftDeposit a"
    "lb_amount (follower lo') = lb_amount (follower lo) - (g_amount (Guarantee a) - LeftDeposit a)"
    "map_of (guarantees lo') = (map_of (guarantees lo))(g_target (Guarantee a) \<mapsto> Guarantee a)"
    using Add_conserves [OF a] by simp_all
next
  fix r lo' assume "applyProposal lo (RemoveProposal r) = Inr lo'"
  then have r: "LedgerOutcome_Remove lo r = Inr lo'" by (simp add: applyProposal_def)
  show "ledgerTotal lo' = ledgerTotal lo"
    "map_of (guarantees lo') = (map_of (guarantees lo))(Target r := None)"
    using Remove_conserves [OF r assms] by simp_all
  show "\<exists>g. map_of (guarantees lo) (Target r) = Some g
              \<and> lb_amount (leader lo') = lb_amount (leader lo) + LeftAmount r
              \<and> lb_amount (follower lo') = lb_amount (follower lo) + (g_amount g - LeftAmount r)"
    using Remove_conserves(3) [OF r assms] by blast
qed

lemma scenario_ledger_keyed: "keyedByTarget scenario_ledger"
  by (simp add: keyedByTarget_def scenario_ledger_def)

lemma scenario_ledger_apply:
  "applyProposals scenario_ledger [AddProposal scenario_add, RemoveProposal scenario_remove] =
     Inr (scenario_ledger
            \<lparr>leader := \<lparr>lb_destination = AddressToDestination Alice, lb_amount = 9\<rparr>,
             follower := \<lparr>lb_destination = AddressToDestination Bob, lb_amount = 11\<rparr>\<rparr>)"
  by (simp add: applyProposal_def LedgerOutcome_Add_def LedgerOutcome_Remove_def scenario_ledger_def
      scenario_add_def scenario_remove_def Gt_def Let_def)

theorem ConsensusChannel_conservation_witness:
  "keyedByTarget scenario_ledger
   \<and> applyProposals scenario_ledger [AddProposal scenario_add, RemoveProposal scenario_remove] =
       Inr (scenario_ledger
              \<lparr>leader := \<lparr>lb_destination = AddressToDestination Alice, lb_amount = 9\<rparr>,
               follower := \<lparr>lb_destination = AddressToDestination Bob, lb_amount = 11\<rparr>\<rparr>)
   \<and> ledgerTotal (scenario_ledger
              \<lparr>leader := \<lparr>lb_destination = AddressToDestination Alice, lb_amount = 9\<rparr>,
               follower := \<lparr>lb_destination = AddressToDestination Bob, lb_amount = 11\<rparr>\<rparr>) =
       ledgerTotal scenario_ledger"
  using ConsensusChannel_conservation [OF scenario_ledger_keyed] scenario_ledger_keyed
    scenario_ledger_apply
  by blast

section \<open>Properties of the engine\<close>















subsection \<open>Rejection notices\<close>















end
